theory Spec2Isabelle
  imports Complex_Main "HOL-Library.Word" "HOL-Library.Multiset"
begin

text \<open>
  The repository is a set of Google Earth Engine scripts.  Each script runs in the
  browser and describes computations that the platform carries out: it holds settings,
  builds descriptions of platform calls, and queues export requests.  The theory embeds
  the scripts' own logic: the helper functions of the two surface water scripts, the
  baseline and anomaly composition of the rainfall script, and the order in which each
  script loads datasets, throws and exports.  The platform's primitives are not code of
  the repository; they are modelled here after the platform's documentation, each with
  a comment, and numbers are exact rationals.
\<close>

chapter \<open>Definitions\<close>

section \<open>Platform values\<close>

text \<open>
  Values that travel through dictionaries, lists and feature properties.  A dictionary
  is an association list; its first binding of a key counts.
\<close>

datatype ee_error =
    MissingKey string
  | IndexOutOfRange int
  | TypeMismatch
  | LengthMismatch

datatype ee_value =
    ENull
  | ENum rat
  | EStr string
  | EList "ee_value list"
  | EDict "(string \<times> ee_value) list"

type_synonym ee_dict = "(string \<times> ee_value) list"
type_synonym 'a ee_result = "ee_error + 'a"

text \<open>A computed object is either a value or the error its evaluation ends in.\<close>

definition ee_bind :: "'a ee_result \<Rightarrow> ('a \<Rightarrow> 'b ee_result) \<Rightarrow> 'b ee_result" where
  "ee_bind r f = (case r of Inl e \<Rightarrow> Inl e | Inr v \<Rightarrow> f v)"

text \<open>\<open>ee.List.map\<close>: the list of results, or the first error.\<close>

fun ee_mapM :: "('a \<Rightarrow> 'b ee_result) \<Rightarrow> 'a list \<Rightarrow> 'b list ee_result" where
  "ee_mapM f [] = Inr []"
| "ee_mapM f (x # xs) = ee_bind (f x) (\<lambda>y. ee_bind (ee_mapM f xs) (\<lambda>ys. Inr (y # ys)))"

text \<open>
  The casts \<open>ee.Number\<close>, \<open>ee.String\<close>, \<open>ee.List\<close>, \<open>ee.Dictionary\<close> check nothing
  in the browser; the platform rejects a value of the wrong type when an operation
  receives it.
\<close>

fun as_number :: "ee_value \<Rightarrow> rat ee_result" where
  "as_number (ENum r) = Inr r"
| "as_number _ = Inl TypeMismatch"

fun as_string :: "ee_value \<Rightarrow> string ee_result" where
  "as_string (EStr s) = Inr s"
| "as_string _ = Inl TypeMismatch"

fun as_list :: "ee_value \<Rightarrow> ee_value list ee_result" where
  "as_list (EList xs) = Inr xs"
| "as_list _ = Inl TypeMismatch"

fun as_dict :: "ee_value \<Rightarrow> ee_dict ee_result" where
  "as_dict (EDict d) = Inr d"
| "as_dict _ = Inl TypeMismatch"

text \<open>\<open>ee.Dictionary.get(key)\<close> fails on a missing key; with a default it does not.\<close>

definition Dictionary_get :: "ee_dict \<Rightarrow> string \<Rightarrow> ee_value ee_result" where
  "Dictionary_get d k = (case map_of d k of None \<Rightarrow> Inl (MissingKey k) | Some v \<Rightarrow> Inr v)"

definition Dictionary_get_default :: "ee_dict \<Rightarrow> string \<Rightarrow> ee_value \<Rightarrow> ee_value" where
  "Dictionary_get_default d k dflt = (case map_of d k of None \<Rightarrow> dflt | Some v \<Rightarrow> v)"

text \<open>\<open>ee.Dictionary.fromLists(keys, values)\<close>: string keys, lists of equal length.\<close>

definition Dictionary_fromLists :: "ee_value list \<Rightarrow> ee_value list \<Rightarrow> ee_dict ee_result" where
  "Dictionary_fromLists keys vals =
     ee_bind (ee_mapM as_string keys) (\<lambda>ks.
       if length ks = length vals then Inr (zip ks vals) else Inl LengthMismatch)"

text \<open>\<open>ee.List.get(index)\<close>: a negative index counts from the end.\<close>

definition List_get :: "ee_value list \<Rightarrow> int \<Rightarrow> ee_value ee_result" where
  "List_get xs i =
     (if 0 \<le> i \<and> i < int (length xs) then Inr (xs ! nat i)
      else if i < 0 \<and> - int (length xs) \<le> i then Inr (xs ! nat (int (length xs) + i))
      else Inl (IndexOutOfRange i))"

text \<open>
  \<open>ee.Number.toInt()\<close> casts to a signed 32-bit integer: the fraction is dropped and a
  value out of range is clamped.
\<close>

definition truncate_rat :: "rat \<Rightarrow> int" where
  "truncate_rat r = (if 0 \<le> r then \<lfloor>r\<rfloor> else \<lceil>r\<rceil>)"

definition clamp_int32 :: "int \<Rightarrow> int" where
  "clamp_int32 k = max (- (2 ^ 31)) (min (2 ^ 31 - 1) k)"

definition Number_toInt :: "ee_value \<Rightarrow> int ee_result" where
  "Number_toInt v = ee_bind (as_number v) (\<lambda>r. Inr (clamp_int32 (truncate_rat r)))"

text \<open>
  \<open>ee.Number.format()\<close> with the platform's default pattern.  How the platform prints
  a number is not the repository's; it is the parameter \<open>fmt\<close>.  \<open>format_integer\<close>
  prints the integer part in decimal and serves in worked examples.
\<close>

definition Number_format :: "(rat \<Rightarrow> string) \<Rightarrow> ee_value \<Rightarrow> string ee_result" where
  "Number_format fmt v = ee_bind (as_number v) (\<lambda>r. Inr (fmt r))"

fun show_nat :: "nat \<Rightarrow> string" where
  "show_nat n =
     (if n < 10 then [''0123456789'' ! n]
      else show_nat (n div 10) @ [''0123456789'' ! (n mod 10)])"

definition format_integer :: "rat \<Rightarrow> string" where
  "format_integer r =
     (let i = \<lfloor>r\<rfloor> in if i < 0 then CHR ''-'' # show_nat (nat (- i)) else show_nat (nat i))"

text \<open>\<open>ee.Number.divide\<close> by a constant that is not zero.\<close>

definition Number_divide :: "ee_value \<Rightarrow> rat \<Rightarrow> rat ee_result" where
  "Number_divide v d = ee_bind (as_number v) (\<lambda>r. Inr (r / d))"

text \<open>
  \<open>ee.Algorithms.If\<close> returns the alternative the condition selects; an error in the
  other alternative does not surface.  A condition that is not a boolean counts as
  false when it is null, zero or empty.
\<close>

definition Algorithms_If :: "bool \<Rightarrow> 'a ee_result \<Rightarrow> 'a ee_result \<Rightarrow> 'a ee_result" where
  "Algorithms_If condition trueCase falseCase = (if condition then trueCase else falseCase)"

fun truthy :: "ee_value \<Rightarrow> bool" where
  "truthy ENull = False"
| "truthy (ENum r) = (r \<noteq> 0)"
| "truthy (EStr s) = (s \<noteq> [])"
| "truthy (EList xs) = (xs \<noteq> [])"
| "truthy (EDict d) = (d \<noteq> [])"

text \<open>\<open>get\<close> on an image or a feature: a property that is not set reads as null.\<close>

definition Element_get :: "ee_dict \<Rightarrow> string \<Rightarrow> ee_value" where
  "Element_get props k = (case map_of props k of None \<Rightarrow> ENull | Some v \<Rightarrow> v)"

text \<open>\<open>ee.Feature(null, properties)\<close>: a feature without geometry.\<close>

datatype ee_feature = Feature (properties: ee_dict)

definition Feature_get :: "ee_feature \<Rightarrow> string \<Rightarrow> ee_value" where
  "Feature_get f k = Element_get (properties f) k"

definition number_property :: "string \<Rightarrow> ee_feature \<Rightarrow> rat" where
  "number_property name f = (case Feature_get f name of ENum r \<Rightarrow> r | _ \<Rightarrow> 0)"

text \<open>\<open>ee.Filter.gt(name, v)\<close> passes a feature whose property is a number above \<open>v\<close>.\<close>

definition Filter_gt :: "string \<Rightarrow> rat \<Rightarrow> ee_feature \<Rightarrow> bool" where
  "Filter_gt name v f = (case Feature_get f name of ENum r \<Rightarrow> v < r | _ \<Rightarrow> False)"

text \<open>\<open>.sort(name, false)\<close>: descending by a numeric property.\<close>

definition Collection_sort_descending :: "string \<Rightarrow> ee_feature list \<Rightarrow> ee_feature list" where
  "Collection_sort_descending name fs = sort_key (\<lambda>f. - number_property name f) fs"


section \<open>Surface water, generic script: transition class summary\<close>

text \<open>
  \<open>gsw\<close> stands for the properties of the image \<open>JRC/GSW1_0/GlobalSurfaceWater\<close>,
  \<open>reduction_results\<close> for the dictionary that \<open>reduceRegion\<close> returns for the grouped
  sum of pixel areas.
\<close>

definition numToString :: "(rat \<Rightarrow> string) \<Rightarrow> ee_value \<Rightarrow> ee_value ee_result" where
  "numToString fmt num = ee_bind (Number_format fmt num) (\<lambda>s. Inr (EStr s))"

definition lookup_names :: "(rat \<Rightarrow> string) \<Rightarrow> ee_dict \<Rightarrow> ee_dict ee_result" where
  "lookup_names fmt gsw =
     ee_bind (as_list (Element_get gsw ''transition_class_values'')) (\<lambda>vals.
     ee_bind (ee_mapM (numToString fmt) vals) (\<lambda>keys.
     ee_bind (as_list (Element_get gsw ''transition_class_names'')) (\<lambda>names.
     Dictionary_fromLists keys names)))"

definition lookup_palette :: "(rat \<Rightarrow> string) \<Rightarrow> ee_dict \<Rightarrow> ee_dict ee_result" where
  "lookup_palette fmt gsw =
     ee_bind (as_list (Element_get gsw ''transition_class_values'')) (\<lambda>vals.
     ee_bind (ee_mapM (numToString fmt) vals) (\<lambda>keys.
     ee_bind (as_list (Element_get gsw ''transition_class_palette'')) (\<lambda>palette.
     Dictionary_fromLists keys palette)))"

definition createFeature_generic ::
  "(rat \<Rightarrow> string) \<Rightarrow> ee_dict \<Rightarrow> ee_value \<Rightarrow> ee_feature ee_result" where
  "createFeature_generic fmt gsw transition_class_stats =
     ee_bind (as_dict transition_class_stats) (\<lambda>stats.
     ee_bind (Dictionary_get stats ''transition_class_value'') (\<lambda>class_number.
     ee_bind (Number_format fmt class_number) (\<lambda>class_key.
     ee_bind (ee_bind (lookup_names fmt gsw) (\<lambda>d. Dictionary_get d class_key)) (\<lambda>name.
     ee_bind (ee_bind (lookup_palette fmt gsw) (\<lambda>d. Dictionary_get d class_key)) (\<lambda>palette.
     ee_bind (Dictionary_get stats ''sum'') (\<lambda>area.
     Inr (Feature
       [(''transition_class_number'', class_number),
        (''transition_class_name'', name),
        (''transition_class_palette'', palette),
        (''area_m2'', area)])))))))"

definition transition_fc_generic ::
  "(rat \<Rightarrow> string) \<Rightarrow> ee_dict \<Rightarrow> ee_dict \<Rightarrow> ee_feature list ee_result" where
  "transition_fc_generic fmt gsw reduction_results =
     ee_bind (Dictionary_get reduction_results ''groups'') (\<lambda>groups.
     ee_bind (as_list groups) (\<lambda>roi_stats.
     ee_mapM (createFeature_generic fmt gsw) roi_stats))"


section \<open>Surface water, robust script: transition class summary\<close>

definition class_names :: "ee_value list" where
  "class_names = map EStr
     [''No Change'', ''Permanent Water'', ''New Permanent'', ''Lost Permanent'',
      ''Seasonal Water'', ''New Seasonal'', ''Lost Seasonal'',
      ''Seasonal to Permanent'', ''Permanent to Seasonal'',
      ''Ephemeral Permanent'', ''Ephemeral Seasonal'']"

definition class_colors :: "ee_value list" where
  "class_colors = map EStr
     [''#ffffff'', ''#0000ff'', ''#22b14c'', ''#d1102d'', ''#99d9ea'',
      ''#b5e61d'', ''#e6a1aa'', ''#ff7f27'', ''#ffc90e'', ''#7f7f7f'', ''#c3c3c3'']"

definition createFeature_robust :: "ee_value \<Rightarrow> ee_feature ee_result" where
  "createFeature_robust transition_class_stats =
     ee_bind (as_dict transition_class_stats) (\<lambda>stats.
     ee_bind (ee_bind (Dictionary_get stats ''transition_class_value'') Number_toInt)
       (\<lambda>class_number.
     let valid = (0 \<le> class_number \<and> class_number \<le> 10) in
     ee_bind (Algorithms_If valid (List_get class_names class_number) (Inr (EStr ''Unknown'')))
       (\<lambda>class_name.
     ee_bind (Algorithms_If valid (List_get class_colors class_number) (Inr (EStr ''#999999'')))
       (\<lambda>class_color.
     ee_bind (Number_divide (Dictionary_get_default stats ''sum'' (ENum 0)) 1000000)
       (\<lambda>area_km2.
     Inr (Feature
       [(''transition_class_number'', ENum (of_int class_number)),
        (''transition_class_name'', class_name),
        (''transition_class_palette'', class_color),
        (''area_km2'', ENum area_km2)]))))))"

definition transition_fc_robust :: "ee_dict \<Rightarrow> ee_feature list ee_result" where
  "transition_fc_robust reduction_results =
     ee_bind (Dictionary_get reduction_results ''groups'') (\<lambda>groups0.
     ee_bind (as_list (if truthy groups0 then groups0 else EList [])) (\<lambda>groups.
     ee_bind (ee_mapM createFeature_robust groups) (\<lambda>features.
     Inr (Collection_sort_descending ''area_km2''
           (filter (Filter_gt ''area_km2'' 0) features)))))"

text \<open>
  What the hard-coded lists give for a class number, with the fallbacks of
  \<open>createFeature\<close> outside 0 to 10.
\<close>

definition table_name :: "int \<Rightarrow> ee_value" where
  "table_name k = (if 0 \<le> k \<and> k \<le> 10 then class_names ! nat k else EStr ''Unknown'')"

definition table_color :: "int \<Rightarrow> ee_value" where
  "table_color k = (if 0 \<le> k \<and> k \<le> 10 then class_colors ! nat k else EStr ''#999999'')"

definition km2_feature :: "int \<Rightarrow> rat \<Rightarrow> ee_feature" where
  "km2_feature k s = Feature
       [(''transition_class_number'', ENum (of_int k)),
        (''transition_class_name'', table_name k),
        (''transition_class_palette'', table_color k),
        (''area_km2'', ENum (s / 1000000))]"

text \<open>
  The shape of what the grouped sum reducer returns: a list \<open>groups\<close> of dictionaries,
  one per value of the integer band \<open>transition\<close>, each with the class value and the
  summed area, no class twice.
\<close>

fun group_class :: "ee_value \<Rightarrow> int option" where
  "group_class (EDict d) =
     (case map_of d ''transition_class_value'' of
        Some (ENum r) \<Rightarrow>
          if of_int \<lfloor>r\<rfloor> = r \<and> - (2 ^ 31) \<le> \<lfloor>r\<rfloor> \<and> \<lfloor>r\<rfloor> < 2 ^ 31 then Some \<lfloor>r\<rfloor>
          else None
      | _ \<Rightarrow> None)"
| "group_class _ = None"

fun group_sum :: "ee_value \<Rightarrow> rat option" where
  "group_sum (EDict d) = (case map_of d ''sum'' of Some (ENum s) \<Rightarrow> Some s | _ \<Rightarrow> None)"
| "group_sum _ = None"

definition grouped_sum_output :: "ee_dict \<Rightarrow> bool" where
  "grouped_sum_output reduction_results =
     (case map_of reduction_results ''groups'' of
        Some (EList groups) \<Rightarrow>
          list_all (\<lambda>g. group_class g \<noteq> None \<and> group_sum g \<noteq> None) groups
          \<and> distinct (map group_class groups)
      | _ \<Rightarrow> False)"

text \<open>A reduction output and dataset metadata for worked examples.\<close>

definition example_reduction :: ee_dict where
  "example_reduction = [(''groups'', EList
     [EDict [(''transition_class_value'', ENum 1), (''sum'', ENum 2500000)],
      EDict [(''transition_class_value'', ENum 2), (''sum'', ENum 0)],
      EDict [(''transition_class_value'', ENum 4), (''sum'', ENum 7000000)]])]"

definition example_metadata :: ee_dict where
  "example_metadata =
     [(''transition_class_values'', EList [ENum 0, ENum 1, ENum 2, ENum 3, ENum 4]),
      (''transition_class_names'',
         EList [EStr ''No change'', EStr ''Permanent'', EStr ''New permanent'',
                EStr ''Lost permanent'', EStr ''Seasonal'']),
      (''transition_class_palette'',
         EList [EStr ''ffffff'', EStr ''0000ff'', EStr ''22b14c'',
                EStr ''d1102d'', EStr ''99d9ea''])]"


section \<open>Surface water, robust script: task names\<close>

text \<open>
  A JavaScript string is a sequence of UTF-16 code units.  The regular expressions of
  \<open>slugifyName\<close> carry no \<open>u\<close> flag, so they classify single code units.
  \<open>js\<close> writes an ASCII literal as such a sequence.
\<close>

type_synonym js_char = "16 word"
type_synonym js_string = "js_char list"

definition js :: "string \<Rightarrow> js_string" where
  "js s = map of_char s"

text \<open>
  The class \<open>\s\<close> of ECMAScript, which is also what \<open>trim\<close> strips: the white space
  code points (TAB, VT, FF, SP, NBSP, ZWNBSP and the space separators) and the line
  terminators (LF, CR, LS, PS).
\<close>

definition is_space :: "js_char \<Rightarrow> bool" where
  "is_space c \<longleftrightarrow>
     c \<in> {0x09, 0x0A, 0x0B, 0x0C, 0x0D, 0x20, 0xA0, 0x1680,
          0x2028, 0x2029, 0x202F, 0x205F, 0x3000, 0xFEFF}
     \<or> (0x2000 \<le> c \<and> c \<le> 0x200A)"

definition is_letter :: "js_char \<Rightarrow> bool" where
  "is_letter c \<longleftrightarrow> (0x41 \<le> c \<and> c \<le> 0x5A) \<or> (0x61 \<le> c \<and> c \<le> 0x7A)"

definition is_digit :: "js_char \<Rightarrow> bool" where
  "is_digit c \<longleftrightarrow> 0x30 \<le> c \<and> c \<le> 0x39"

definition underscore :: js_char where
  "underscore = 0x5F"

definition hyphen :: js_char where
  "hyphen = 0x2D"

text \<open>The class \<open>\w\<close>: \<open>[A-Za-z0-9_]\<close>.\<close>

definition is_word :: "js_char \<Rightarrow> bool" where
  "is_word c \<longleftrightarrow> is_letter c \<or> is_digit c \<or> c = underscore"

text \<open>\<open>String.prototype.trim\<close>.\<close>

definition trim :: "js_string \<Rightarrow> js_string" where
  "trim s = rev (dropWhile is_space (rev (dropWhile is_space s)))"

text \<open>
  \<open>.replace(/\s+/g, '_')\<close>: scanning from the left, the greedy \<open>\s+\<close> matches a white
  space code unit together with all white space that follows it; the match becomes one
  underscore and scanning resumes behind it.
\<close>

function replace_ws :: "js_string \<Rightarrow> js_string" where
  "replace_ws [] = []"
| "replace_ws (c # cs) =
     (if is_space c then underscore # replace_ws (dropWhile is_space cs)
      else c # replace_ws cs)"
  by pat_completeness auto
termination
  by (relation "measure length") (auto simp: length_dropWhile_le less_Suc_eq_le)

text \<open>\<open>.replace(/[^\w\-]/g, '')\<close> deletes every code unit outside \<open>[\w\-]\<close>.\<close>

definition delete_unsafe :: "js_string \<Rightarrow> js_string" where
  "delete_unsafe s = filter (\<lambda>c. is_word c \<or> c = hyphen) s"

definition slugifyName :: "js_string \<Rightarrow> js_string" where
  "slugifyName s = delete_unsafe (replace_ws (trim s))"

text \<open>
  The description in words, for comparison: cut the string into its maximal runs of
  white space and of other code units, and put one underscore for each white space run.
\<close>

function runs :: "('a \<Rightarrow> bool) \<Rightarrow> 'a list \<Rightarrow> 'a list list" where
  "runs p [] = []"
| "runs p (x # xs) =
     (x # takeWhile (\<lambda>y. p y = p x) xs) # runs p (dropWhile (\<lambda>y. p y = p x) xs)"
  by pat_completeness auto
termination
  by (relation "measure (\<lambda>(p, xs). length xs)")
     (auto simp: length_dropWhile_le less_Suc_eq_le)

definition collapse_runs :: "js_string \<Rightarrow> js_string" where
  "collapse_runs s =
     concat (map (\<lambda>g. if is_space (hd g) then [underscore] else g) (runs is_space s))"


section \<open>Images and image collections\<close>

text \<open>
  An image is taken with a single band, as every image of the rainfall composition has:
  at each pixel a value, or none where the pixel is masked.  \<open>time\<close> holds
  \<open>system:time_start\<close> with the calendar year and the day of year the platform derives
  from it; an image that a reducer returns has none.  An image without bands (the
  reduction of an empty collection) is represented as masked everywhere.  A geometry is
  the set of pixels it covers.
\<close>

record ee_time =
  time_start :: int
  calendar_year :: int
  day_of_year :: int

record 'p image =
  band :: "'p \<Rightarrow> rat option"
  time :: "ee_time option"
  props :: ee_dict

type_synonym 'p geometry = "'p \<Rightarrow> bool"

text \<open>
  \<open>ee.Filter.date(start, end)\<close> keeps the images with \<open>start \<le> time_start < end\<close>.  A
  calendar filter is inclusive at both ends and wraps around when the end lies before the
  start.
\<close>

datatype ee_filter =
    Filter_date int int
  | Filter_dayOfYear int int
  | Filter_calendarRange_year int int

definition calendar_in_range :: "int \<Rightarrow> int \<Rightarrow> int \<Rightarrow> bool" where
  "calendar_in_range a b v = (if a \<le> b then a \<le> v \<and> v \<le> b else a \<le> v \<or> v \<le> b)"

fun passes :: "ee_filter \<Rightarrow> 'p image \<Rightarrow> bool" where
  "passes (Filter_date a b) img =
     (case time img of None \<Rightarrow> False | Some t \<Rightarrow> a \<le> time_start t \<and> time_start t < b)"
| "passes (Filter_dayOfYear a b) img =
     (case time img of None \<Rightarrow> False | Some t \<Rightarrow> calendar_in_range a b (day_of_year t))"
| "passes (Filter_calendarRange_year a b) img =
     (case time img of None \<Rightarrow> False | Some t \<Rightarrow> calendar_in_range a b (calendar_year t))"

definition Collection_filter :: "ee_filter \<Rightarrow> 'p image list \<Rightarrow> 'p image list" where
  "Collection_filter f ic = filter (passes f) ic"

text \<open>
  The reducers \<open>sum()\<close> and \<open>mean()\<close> of an image collection work pixel by pixel on the
  values of the images that are not masked there; where no image has a value the result
  is masked.
\<close>

definition unmasked_values :: "'p image list \<Rightarrow> 'p \<Rightarrow> rat list" where
  "unmasked_values ic p = List.map_filter (\<lambda>img. band img p) ic"

definition reduced :: "('p \<Rightarrow> rat option) \<Rightarrow> 'p image" where
  "reduced f = \<lparr>band = f, time = None, props = []\<rparr>"

definition ImageCollection_sum :: "'p image list \<Rightarrow> 'p image" where
  "ImageCollection_sum ic =
     reduced (\<lambda>p. case unmasked_values ic p of [] \<Rightarrow> None | v # vs \<Rightarrow> Some (sum_list (v # vs)))"

definition ImageCollection_mean :: "'p image list \<Rightarrow> 'p image" where
  "ImageCollection_mean ic =
     reduced (\<lambda>p. case unmasked_values ic p of [] \<Rightarrow> None
                 | v # vs \<Rightarrow> Some (sum_list (v # vs) / of_nat (length (v # vs))))"

text \<open>\<open>clip\<close> masks every pixel outside the geometry; \<open>set\<close> overwrites a property.\<close>

definition Image_clip :: "'p image \<Rightarrow> 'p geometry \<Rightarrow> 'p image" where
  "Image_clip img g = img\<lparr>band := (\<lambda>p. if g p then band img p else None)\<rparr>"

definition Image_set :: "'p image \<Rightarrow> string \<Rightarrow> ee_value \<Rightarrow> 'p image" where
  "Image_set img k v = img\<lparr>props := (k, v) # filter (\<lambda>kv. fst kv \<noteq> k) (props img)\<rparr>"

text \<open>
  \<open>mask()\<close> is 0 where the image is masked and 1 elsewhere; \<open>updateMask(m)\<close> masks in
  addition every pixel where \<open>m\<close> is zero or masked; \<open>subtract\<close> has a value where both
  images have one.
\<close>

definition Image_mask :: "'p image \<Rightarrow> 'p image" where
  "Image_mask img = reduced (\<lambda>p. Some (if band img p = None then 0 else 1))"

definition Image_updateMask :: "'p image \<Rightarrow> 'p image \<Rightarrow> 'p image" where
  "Image_updateMask img m =
     img\<lparr>band := (\<lambda>p. case band m p of None \<Rightarrow> None
                      | Some v \<Rightarrow> if v = 0 then None else band img p)\<rparr>"

definition Image_subtract :: "'p image \<Rightarrow> 'p image \<Rightarrow> 'p image" where
  "Image_subtract a b =
     a\<lparr>band := (\<lambda>p. case band a p of None \<Rightarrow> None
                    | Some x \<Rightarrow> (case band b p of None \<Rightarrow> None | Some y \<Rightarrow> Some (x - y)))\<rparr>"

text \<open>\<open>ee.List.sequence(start, end)\<close> with step 1.\<close>

definition List_sequence :: "int \<Rightarrow> int \<Rightarrow> int list" where
  "List_sequence a b = [a..b]"


section \<open>Rainfall script: study total, baseline and anomaly\<close>

text \<open>
  \<open>chirps\<close> stands for the collection of the script's variable \<open>chirps\<close>: the daily
  images of \<open>UCSB-CHG/CHIRPS/DAILY\<close>, band \<open>precipitation\<close>, that meet the area of
  interest.  The study period is given by the time stamps of its two dates.
\<close>

record rainfall_settings =
  study_start :: int
  study_end :: int
  baseline_start_year :: int
  baseline_end_year :: int
  doy_start :: int
  doy_end :: int

definition chirps_study :: "rainfall_settings \<Rightarrow> 'p image list \<Rightarrow> 'p geometry \<Rightarrow> 'p image" where
  "chirps_study cfg chirps AOIgeom =
     Image_clip
       (ImageCollection_sum
         (Collection_filter (Filter_date (study_start cfg) (study_end cfg)) chirps))
       AOIgeom"

definition chirps_mam :: "rainfall_settings \<Rightarrow> 'p image list \<Rightarrow> 'p image list" where
  "chirps_mam cfg chirps =
     Collection_filter (Filter_dayOfYear (doy_start cfg) (doy_end cfg)) chirps"

definition years :: "rainfall_settings \<Rightarrow> int list" where
  "years cfg = List_sequence (baseline_start_year cfg) (baseline_end_year cfg)"

definition chirps_baseline :: "rainfall_settings \<Rightarrow> 'p image list \<Rightarrow> 'p geometry \<Rightarrow> 'p image" where
  "chirps_baseline cfg chirps AOIgeom =
     ImageCollection_mean
       (map (\<lambda>y.
           Image_set
             (Image_clip
               (ImageCollection_sum
                 (Collection_filter (Filter_calendarRange_year y y) (chirps_mam cfg chirps)))
               AOIgeom)
             ''year'' (ENum (of_int y)))
         (years cfg))"

definition baseline_masked :: "rainfall_settings \<Rightarrow> 'p image list \<Rightarrow> 'p geometry \<Rightarrow> 'p image" where
  "baseline_masked cfg chirps AOIgeom =
     Image_updateMask (chirps_baseline cfg chirps AOIgeom)
       (Image_mask (chirps_study cfg chirps AOIgeom))"

definition rainfall_anomaly :: "rainfall_settings \<Rightarrow> 'p image list \<Rightarrow> 'p geometry \<Rightarrow> 'p image" where
  "rainfall_anomaly cfg chirps AOIgeom =
     Image_clip
       (Image_subtract (chirps_study cfg chirps AOIgeom) (baseline_masked cfg chirps AOIgeom))
       AOIgeom"

text \<open>
  The baseline in words, for comparison.  \<open>season_total\<close> is the sum, at a pixel of the
  area of interest, of the daily images of year \<open>y\<close> whose day of year lies in the window
  from \<open>a\<close> to \<open>b\<close>; a window whose end lies before its start runs around the end of
  the year, as the platform's day-of-year filter reads it.  \<open>mean_of_years\<close> is the mean
  of the yearly values over the years \<open>y0\<close> to \<open>y1\<close> that have one.
\<close>

definition in_season :: "int \<Rightarrow> int \<Rightarrow> int \<Rightarrow> 'p image \<Rightarrow> bool" where
  "in_season y a b img =
     (case time img of None \<Rightarrow> False
      | Some t \<Rightarrow> calendar_year t = y \<and> calendar_in_range a b (day_of_year t))"

definition season_total ::
  "'p image list \<Rightarrow> 'p geometry \<Rightarrow> int \<Rightarrow> int \<Rightarrow> int \<Rightarrow> 'p \<Rightarrow> rat option" where
  "season_total chirps AOIgeom a b y p =
     (if AOIgeom p then
        (case List.map_filter (\<lambda>img. band img p) (filter (in_season y a b) chirps) of
           [] \<Rightarrow> None
         | v # vs \<Rightarrow> Some (sum_list (v # vs)))
      else None)"

definition mean_of_years ::
  "(int \<Rightarrow> 'p \<Rightarrow> rat option) \<Rightarrow> int \<Rightarrow> int \<Rightarrow> 'p \<Rightarrow> rat option" where
  "mean_of_years yearly y0 y1 p =
     (case List.map_filter (\<lambda>y. yearly y p) [y0..y1] of
        [] \<Rightarrow> None
      | t # ts \<Rightarrow> Some (sum_list (t # ts) / of_nat (length (t # ts))))"

text \<open>
  A collection of five daily images on three pixels, of which the area of interest covers
  the first two, for worked examples.
\<close>

definition daily :: "int \<Rightarrow> int \<Rightarrow> int \<Rightarrow> (nat \<Rightarrow> rat option) \<Rightarrow> nat image" where
  "daily t y d f =
     \<lparr>band = f, time = Some \<lparr>time_start = t, calendar_year = y, day_of_year = d\<rparr>, props = []\<rparr>"

definition example_chirps :: "nat image list" where
  "example_chirps =
     [daily 10 2000 10 (\<lambda>p. if p = 0 then Some 3 else if p = 1 then Some 1 else Some 9),
      daily 20 2000 20 (\<lambda>p. if p = 0 then Some 5 else None),
      daily 380 2001 15 (\<lambda>p. if p = 0 then Some 4 else if p = 1 then Some 2 else Some 9),
      daily 565 2001 200 (\<lambda>p. Some 100),
      daily 800 2002 70 (\<lambda>p. if p = 0 then Some 10 else None)]"

definition example_settings :: rainfall_settings where
  "example_settings = \<lparr>study_start = 731, study_end = 1096,
     baseline_start_year = 2000, baseline_end_year = 2001, doy_start = 1, doy_end = 100\<rparr>"

definition example_AOI :: "nat geometry" where
  "example_AOI p = (p < 2)"


section \<open>The composition as the scripts write it\<close>

text \<open>
  In the browser a platform object is a description of calls: the name of a platform
  function or method and its arguments, the receiver first.  The function passed to
  \<open>map\<close> is described by its body over its parameter.  The descriptions below are the
  right-hand sides of the composition statements.  Every variable that the composition
  itself assigns is replaced by its description; the leaves are the settings, the area of
  interest and the prepared collection each script starts from: \<open>chirps\<close> in the
  rainfall script and \<open>withNDVI\<close> (the cloud-masked Landsat collection with its NDVI
  band) in the NDVI script.
\<close>

datatype ee_object =
    Variable string
  | Literal string
  | Properties "(string \<times> ee_object) list"
  | Call string "ee_object list"
  | Function string ee_object

fun primitives :: "ee_object \<Rightarrow> string list" where
  "primitives (Variable x) = []"
| "primitives (Literal c) = []"
| "primitives (Properties kvs) = concat (map (\<lambda>kv. primitives (snd kv)) kvs)"
| "primitives (Call f args) = f # concat (map primitives args)"
| "primitives (Function x body) = primitives body"

text \<open>How deep calls of one function stand inside each other.\<close>

fun nesting :: "string \<Rightarrow> ee_object \<Rightarrow> nat" where
  "nesting f (Variable x) = 0"
| "nesting f (Literal c) = 0"
| "nesting f (Properties kvs) = foldr max (map (\<lambda>kv. nesting f (snd kv)) kvs) 0"
| "nesting f (Call g args) = (if g = f then 1 else 0) + foldr max (map (nesting f) args) 0"
| "nesting f (Function x body) = nesting f body"

text \<open>Rainfall script, statements 1 to 3 of its rainfall section.\<close>

definition chirps_study_object :: ee_object where
  "chirps_study_object =
     Call ''clip''
       [Call ''sum''
         [Call ''filter''
           [Variable ''chirps'',
            Call ''ee.Filter.date'' [Variable ''study_start'', Variable ''study_end'']]],
        Variable ''AOIgeom'']"

definition chirps_mam_object :: ee_object where
  "chirps_mam_object =
     Call ''filter''
       [Variable ''chirps'',
        Call ''ee.Filter.dayOfYear'' [Variable ''doy_start'', Variable ''doy_end'']]"

definition years_object :: ee_object where
  "years_object =
     Call ''ee.List.sequence''
       [Variable ''baseline_start_year'', Variable ''baseline_end_year'']"

definition chirps_baseline_object :: ee_object where
  "chirps_baseline_object =
     Call ''mean''
       [Call ''ee.ImageCollection.fromImages''
         [Call ''map''
           [years_object,
            Function ''y''
              (Call ''set''
                [Call ''clip''
                  [Call ''sum''
                    [Call ''filter''
                      [chirps_mam_object,
                       Call ''ee.Filter.calendarRange''
                         [Variable ''y'', Variable ''y'', Literal ''year'']]],
                   Variable ''AOIgeom''],
                 Literal ''year'', Variable ''y''])]]]"

definition baseline_masked_object :: ee_object where
  "baseline_masked_object =
     Call ''updateMask'' [chirps_baseline_object, Call ''mask'' [chirps_study_object]]"

definition rainfall_anomaly_object :: ee_object where
  "rainfall_anomaly_object =
     Call ''clip''
       [Call ''subtract'' [chirps_study_object, baseline_masked_object], Variable ''AOIgeom'']"

text \<open>
  Landsat NDVI script: the monthly NDVI images, their monthly means over the baseline
  period, \<open>computeAnomaly\<close> mapped over the monthly images and cut to the study period,
  and the mean anomaly images.  The list of empty months, the chart and the table of
  regional means report on these collections and are not part of the composition.
\<close>

definition monthlyNDVI_object :: ee_object where
  "monthlyNDVI_object =
     Call ''ee.ImageCollection.fromImages''
       [Call ''flatten''
         [Call ''map''
           [Call ''ee.List.sequence'' [Variable ''startYear'', Variable ''endYear''],
            Function ''y''
              (Call ''map''
                [Call ''ee.List.sequence'' [Variable ''startMonth'', Variable ''endMonth''],
                 Function ''m''
                   (Call ''set''
                     [Call ''mean''
                       [Call ''filter''
                         [Call ''filter''
                           [Call ''select'' [Variable ''withNDVI'', Literal ''NDVI''],
                            Call ''ee.Filter.calendarRange''
                              [Variable ''y'', Variable ''y'', Literal ''year'']],
                          Call ''ee.Filter.calendarRange''
                            [Variable ''m'', Variable ''m'', Literal ''month'']]],
                      Properties
                        [(''year'', Variable ''y''),
                         (''month'', Variable ''m''),
                         (''system:time_start'',
                            Call ''millis''
                              [Call ''ee.Date.fromYMD''
                                [Variable ''y'', Variable ''m'', Literal ''1'']])]])])]]]"

definition meanMonthlyNDVI_object :: ee_object where
  "meanMonthlyNDVI_object =
     Call ''ee.ImageCollection.fromImages''
       [Call ''map''
         [Call ''ee.List.sequence'' [Literal ''1'', Literal ''12''],
          Function ''m''
            (Call ''set''
              [Call ''mean''
                [Call ''filter''
                  [Call ''filterDate''
                     [monthlyNDVI_object, Variable ''b_start'', Variable ''b_end''],
                   Call ''ee.Filter.eq'' [Literal ''month'', Variable ''m'']]],
               Literal ''month'', Variable ''m''])]]"

definition referenceImage_object :: ee_object where
  "referenceImage_object =
     Call ''first''
       [Call ''filter''
         [meanMonthlyNDVI_object,
          Call ''ee.Filter.eq''
            [Literal ''month'', Call ''get'' [Variable ''image'', Literal ''month'']]]]"

definition computeAnomaly_object :: ee_object where
  "computeAnomaly_object =
     Function ''image''
       (Call ''set''
         [Call ''ee.Image''
           [Call ''ee.Algorithms.If''
             [Call ''gt'' [Call ''size'' [Call ''bandNames'' [Variable ''image'']], Literal ''0''],
              Call ''ee.Algorithms.If''
                [Call ''gt''
                   [Call ''size'' [Call ''bandNames'' [referenceImage_object]], Literal ''0''],
                 Call ''subtract'' [Variable ''image'', referenceImage_object],
                 Variable ''image''],
              Variable ''image'']],
          Properties
            [(''system:time_start'',
                Call ''get'' [Variable ''image'', Literal ''system:time_start'']),
             (''year'', Call ''get'' [Variable ''image'', Literal ''year'']),
             (''month'', Call ''get'' [Variable ''image'', Literal ''month''])]])"

definition monthlyNDVIAnomalies_object :: ee_object where
  "monthlyNDVIAnomalies_object = Call ''map'' [monthlyNDVI_object, computeAnomaly_object]"

definition monthlyNDVIAnomalies_anom_object :: ee_object where
  "monthlyNDVIAnomalies_anom_object =
     Call ''filterDate''
       [monthlyNDVIAnomalies_object, Variable ''anom_start'', Variable ''anom_end'']"

definition withNDVI_baseline_object :: ee_object where
  "withNDVI_baseline_object =
     Call ''filterDate'' [Variable ''withNDVI'', Variable ''b_start'', Variable ''b_end'']"

definition ndvi_baseline_object :: ee_object where
  "ndvi_baseline_object =
     Call ''mean''
       [Call ''filter''
         [Call ''select'' [withNDVI_baseline_object, Literal ''NDVI''],
          Call ''ee.Filter.dayOfYear'' [Variable ''bm_start'', Variable ''bm_end'']]]"

definition study_meanNDVI_object :: ee_object where
  "study_meanNDVI_object =
     Call ''clip''
       [Call ''mean''
         [Call ''select''
           [Call ''filterDate''
              [Variable ''withNDVI'', Variable ''anom_start'', Variable ''anom_end''],
            Literal ''NDVI'']],
        Variable ''AOI_geometry'']"

definition meanAnomaly_object :: ee_object where
  "meanAnomaly_object =
     Call ''rename''
       [Call ''subtract'' [study_meanNDVI_object, ndvi_baseline_object],
        Literal ''NDVI_mean_anomaly'']"

definition anomaly_AOI_object :: ee_object where
  "anomaly_AOI_object =
     Call ''clip''
       [Call ''subtract''
         [Call ''select'' [study_meanNDVI_object, Literal ''NDVI''], ndvi_baseline_object],
        Variable ''AOI_geometry'']"

text \<open>
  The reading of ``purely the aggregation primitives over the filtered collections'':
  nothing is called but \<open>sum\<close>, \<open>mean\<close>, \<open>subtract\<close>, \<open>updateMask\<close> and what selects
  and filters a collection.
\<close>

definition aggregation_primitives :: "string set" where
  "aggregation_primitives = {''sum'', ''mean'', ''subtract'', ''updateMask''}"

definition filtering_primitives :: "string set" where
  "filtering_primitives =
     {''filter'', ''filterDate'', ''select'', ''ee.Filter.date'', ''ee.Filter.dayOfYear'',
      ''ee.Filter.calendarRange'', ''ee.Filter.eq''}"

definition purely_aggregation :: "ee_object \<Rightarrow> bool" where
  "purely_aggregation obj \<longleftrightarrow>
     set (primitives obj) \<subseteq> aggregation_primitives \<union> filtering_primitives"


section \<open>The scripts as sequences of platform requests\<close>

text \<open>
  Each script is straight-line code with a few branches on its settings.  What it asks of
  the platform is recorded as a list of events in the order of the source: loading an asset
  (\<open>ee.Image\<close>, \<open>ee.ImageCollection\<close>, \<open>ee.FeatureCollection\<close> of an asset id), calling
  one of the \<open>Export\<close> functions (recorded with the variable that is exported), and
  throwing.  Layer arithmetic, charts, map layers and prints are left out.  \<open>run\<close> cuts
  the list behind the first throw: nothing after an uncaught exception is executed.
\<close>

text \<open>
  A setting can hold any JavaScript value; \<open>===\<close> compares without conversion, and
  \<open>NaN\<close> equals nothing.
\<close>

datatype js_value = JUndefined | JNull | JBool bool | JNum rat | JNaN | JStr string

fun strict_eq :: "js_value \<Rightarrow> js_value \<Rightarrow> bool" where
  "strict_eq JNaN _ = False"
| "strict_eq _ JNaN = False"
| "strict_eq a b = (a = b)"

datatype js_error =
    Error string
  | TypeError string
  | ReferenceError string
  | EEException ee_error

datatype asset_type = EE_Image | EE_ImageCollection | EE_FeatureCollection

datatype export_function =
    Export_image_toDrive
  | Export_image_toAsset
  | Export_image_toCloudStorage
  | Export_table_toDrive
  | Export_table_toAsset
  | Export_table_toCloudStorage
  | Export_table_toBigQuery
  | Export_table_toFeatureView
  | Export_video_toDrive
  | Export_video_toCloudStorage
  | Export_map_toCloudStorage

datatype event =
    Load asset_type string
  | Export export_function string
  | Throw js_error

fun run :: "event list \<Rightarrow> event list" where
  "run [] = []"
| "run (Throw e # rest) = [Throw e]"
| "run (ev # rest) = ev # run rest"

fun loads :: "event list \<Rightarrow> string list" where
  "loads [] = []"
| "loads (Load t a # evs) = a # loads evs"
| "loads (_ # evs) = loads evs"

fun exports :: "event list \<Rightarrow> export_function list" where
  "exports [] = []"
| "exports (Export f x # evs) = f # exports evs"
| "exports (_ # evs) = exports evs"

fun thrown :: "event list \<Rightarrow> js_error list" where
  "thrown [] = []"
| "thrown (Throw e # evs) = e # thrown evs"
| "thrown (_ # evs) = thrown evs"



text \<open>
  The settings that decide which requests a script makes.  \<open>AOI_imported\<close> says whether
  the Code Editor holds an imported table named \<open>AOI\<close>.  A synchronous \<open>getInfo()\<close>
  throws when the platform answers with an error; the answer is part of the run's input.
\<close>

record aoi_settings =
  use_custom_aoi :: bool
  AOI_imported :: bool

record chirps_settings = aoi_settings +
  admin_level :: js_value




text \<open>
  \<open>AOI = AOI; ... AOI.geometry ? AOI.geometry() : AOI\<close>: reading a property of
  \<open>undefined\<close> throws a \<open>TypeError\<close>.
\<close>

definition imported_AOI :: "'a aoi_settings_scheme \<Rightarrow> event list" where
  "imported_AOI cfg =
     (if AOI_imported cfg then [] else [Throw (TypeError ''AOI is undefined'')])"


text \<open>The CHIRPS rainfall script.\<close>

definition chirps_statements :: "chirps_settings \<Rightarrow> event list" where
  "chirps_statements cfg =
     [Load EE_FeatureCollection ''FAO/GAUL/2015/level0'',
      Load EE_FeatureCollection ''FAO/GAUL/2015/level1'',
      Load EE_FeatureCollection ''FAO/GAUL/2015/level2'']
     @ (if use_custom_aoi cfg then imported_AOI cfg
        else if strict_eq (admin_level cfg) (JNum 0) then []
        else if strict_eq (admin_level cfg) (JNum 1) then []
        else if strict_eq (admin_level cfg) (JNum 2) then []
        else [Throw (Error ''admin_level must be 0, 1, or 2'')])
     @ [Load EE_ImageCollection ''UCSB-CHG/CHIRPS/DAILY'',
        Export Export_image_toDrive ''chirps_study'',
        Export Export_image_toDrive ''chirps_baseline'',
        Export Export_image_toDrive ''rainfall_anomaly'',
        Export Export_table_toDrive ''admin_stats_with_centroid'',
        Export Export_table_toDrive ''AOI'']"












chapter \<open>Properties\<close>

section \<open>Task names\<close>

lemma replace_ws_nospace_prefix:
  "\<forall>y\<in>set ys. \<not> is_space y \<Longrightarrow> replace_ws (ys @ zs) = ys @ replace_ws zs"
  by (induction ys) auto

lemma replace_ws_collapse: "replace_ws s = collapse_runs s"
proof (induction s rule: length_induct)
  case (1 s)
  show ?case
  proof (cases s)
    case Nil
    then show ?thesis by (simp add: collapse_runs_def)
  next
    case (Cons x xs)
    show ?thesis
    proof (cases "is_space x")
      case True
      have short: "length (dropWhile is_space xs) < length s"
        using Cons by (simp add: length_dropWhile_le less_Suc_eq_le)
      have "replace_ws (dropWhile is_space xs) = collapse_runs (dropWhile is_space xs)"
        using 1 short by blast
      then show ?thesis using Cons True by (simp add: collapse_runs_def)
    next
      case False
      let ?np = "\<lambda>y. \<not> is_space y"
      have short: "length (dropWhile ?np xs) < length s"
        using Cons by (simp add: length_dropWhile_le less_Suc_eq_le)
      have ih: "replace_ws (dropWhile ?np xs) = collapse_runs (dropWhile ?np xs)"
        using 1 short by blast
      have "replace_ws (x # xs) = replace_ws ((x # takeWhile ?np xs) @ dropWhile ?np xs)"
        by simp
      also have "\<dots> = (x # takeWhile ?np xs) @ replace_ws (dropWhile ?np xs)"
        using False by (intro replace_ws_nospace_prefix) (auto dest: set_takeWhileD)
      finally show ?thesis using Cons False ih by (simp add: collapse_runs_def)
    qed
  qed
qed

lemma trim_decomp:
  "\<exists>pre post. s = pre @ trim s @ post \<and>
     (\<forall>c\<in>set pre. is_space c) \<and> (\<forall>c\<in>set post. is_space c)"
proof -
  let ?t = "dropWhile is_space s"
  let ?pre = "takeWhile is_space s"
  let ?post = "rev (takeWhile is_space (rev ?t))"
  have t: "?t = trim s @ ?post"
    unfolding trim_def by (metis rev_append rev_rev_ident takeWhile_dropWhile_id)
  have "s = ?pre @ ?t" by simp
  with t have "s = ?pre @ trim s @ ?post" by simp
  moreover have "\<forall>c\<in>set ?pre. is_space c" by (auto dest: set_takeWhileD)
  moreover have "\<forall>c\<in>set ?post. is_space c" by (auto dest: set_takeWhileD)
  ultimately show ?thesis by blast
qed

lemma trim_ends:
  assumes "trim s \<noteq> []"
  shows "\<not> is_space (hd (trim s)) \<and> \<not> is_space (last (trim s))"
  by (metis (no_types, lifting) assms dropWhile.simps(1)
      dropWhile_eq_Nil_conv dropWhile_last hd_dropWhile last_rev rev.simps(1)
      rev_rev_ident trim_def)

lemma slugifyName_charset:
  "c \<in> set (slugifyName s) \<Longrightarrow> is_letter c \<or> is_digit c \<or> c = underscore \<or> c = hyphen"
  by (auto simp: slugifyName_def delete_unsafe_def is_word_def)

text \<open>
  Claim C10.  For every string \<open>s\<close>, \<open>slugifyName s\<close> consists of letters, digits,
  underscores and hyphens only.  It is obtained by removing the leading and trailing
  white space (what is cut off is white space, and what remains neither starts nor ends
  with white space), putting a single underscore for each maximal run of the remaining
  white space, and deleting every other code unit that is neither a word character nor a
  hyphen.
\<close>

theorem slugifyName_safe:
  "(\<forall>c\<in>set (slugifyName s). is_letter c \<or> is_digit c \<or> c = underscore \<or> c = hyphen)
   \<and> (\<exists>pre post. s = pre @ trim s @ post
         \<and> (\<forall>c\<in>set pre. is_space c) \<and> (\<forall>c\<in>set post. is_space c))
   \<and> (trim s \<noteq> [] \<longrightarrow> \<not> is_space (hd (trim s)) \<and> \<not> is_space (last (trim s)))
   \<and> slugifyName s = filter (\<lambda>c. is_word c \<or> c = hyphen) (collapse_runs (trim s))"
proof (intro conjI)
  show "\<forall>c\<in>set (slugifyName s). is_letter c \<or> is_digit c \<or> c = underscore \<or> c = hyphen"
    using slugifyName_charset by blast
  show "\<exists>pre post. s = pre @ trim s @ post
          \<and> (\<forall>c\<in>set pre. is_space c) \<and> (\<forall>c\<in>set post. is_space c)"
    by (rule trim_decomp)
  show "trim s \<noteq> [] \<longrightarrow> \<not> is_space (hd (trim s)) \<and> \<not> is_space (last (trim s))"
    using trim_ends by blast
  show "slugifyName s = filter (\<lambda>c. is_word c \<or> c = hyphen) (collapse_runs (trim s))"
    by (simp add: slugifyName_def delete_unsafe_def replace_ws_collapse)
qed

lemma slugifyName_example:
  "slugifyName (js '' AOI  Inland bassin (v2)! '') = js ''AOI_Inland_bassin_v2''"
  by (simp add: slugifyName_def delete_unsafe_def js_def trim_def is_space_def is_word_def
      is_letter_def is_digit_def underscore_def hyphen_def)

theorem slugifyName_safe_witness:
  "slugifyName (js '' AOI  Inland bassin (v2)! '') = js ''AOI_Inland_bassin_v2''
   \<and> list_all (\<lambda>c. is_letter c \<or> is_digit c \<or> c = underscore \<or> c = hyphen)
        (js ''AOI_Inland_bassin_v2'')
   \<and> trim (js '' AOI  Inland bassin (v2)! '') = js ''AOI  Inland bassin (v2)!''
   \<and> \<not> is_space (hd (js ''AOI  Inland bassin (v2)!''))
   \<and> \<not> is_space (last (js ''AOI  Inland bassin (v2)!''))
   \<and> collapse_runs (js ''AOI  Inland bassin (v2)!'') = js ''AOI_Inland_bassin_(v2)!''"
proof -
  let ?s = "js '' AOI  Inland bassin (v2)! ''"
  have t: "trim ?s = js ''AOI  Inland bassin (v2)!''"
    by (simp add: js_def trim_def is_space_def)
  have c: "collapse_runs (js ''AOI  Inland bassin (v2)!'') = js ''AOI_Inland_bassin_(v2)!''"
    by (simp add: collapse_runs_def js_def is_space_def underscore_def)
  have "\<forall>c\<in>set (slugifyName ?s). is_letter c \<or> is_digit c \<or> c = underscore \<or> c = hyphen"
    using slugifyName_safe [of ?s] by blast
  then have "list_all (\<lambda>c. is_letter c \<or> is_digit c \<or> c = underscore \<or> c = hyphen)
      (js ''AOI_Inland_bassin_v2'')"
    unfolding slugifyName_example by (simp only: list_all_iff)
  moreover have "trim ?s \<noteq> []"
    unfolding t by (simp add: js_def)
  then have "\<not> is_space (hd (trim ?s)) \<and> \<not> is_space (last (trim ?s))"
    using slugifyName_safe [of ?s] by blast
  then have "\<not> is_space (hd (js ''AOI  Inland bassin (v2)!''))
      \<and> \<not> is_space (last (js ''AOI  Inland bassin (v2)!''))"
    unfolding t .
  ultimately show ?thesis using slugifyName_example t c by blast
qed


section \<open>Computed objects\<close>

lemma ee_bind_Inr [simp]: "ee_bind (Inr v) f = f v"
  by (simp add: ee_bind_def)

lemma ee_bind_Inl [simp]: "ee_bind (Inl e) f = Inl e"
  by (simp add: ee_bind_def)

lemma ee_bind_Inr_iff: "ee_bind r f = Inr y \<longleftrightarrow> (\<exists>v. r = Inr v \<and> f v = Inr y)"
  by (cases r) auto

lemma ee_mapM_Inr_iff: "ee_mapM f xs = Inr ys \<longleftrightarrow> list_all2 (\<lambda>x y. f x = Inr y) xs ys"
proof (induction xs arbitrary: ys)
  case Nil
  then show ?case by auto
next
  case (Cons x xs)
  show ?case
    by (cases ys) (auto simp: ee_bind_Inr_iff Cons.IH)
qed

lemma ee_mapM_map:
  "(\<And>x. x \<in> set xs \<Longrightarrow> f x = Inr (h x)) \<Longrightarrow> ee_mapM f xs = Inr (map h xs)"
  by (induction xs) auto

lemma as_dict_Inr_iff: "as_dict v = Inr d \<longleftrightarrow> v = EDict d"
  by (cases v) auto

lemma as_list_Inr_iff: "as_list v = Inr xs \<longleftrightarrow> v = EList xs"
  by (cases v) auto

lemma truncate_rat_of_int [simp]: "truncate_rat (of_int k) = k"
  by (simp add: truncate_rat_def)

lemma Number_toInt_of_int: "Number_toInt (ENum (of_int k)) = Inr (clamp_int32 k)"
  by (simp add: Number_toInt_def)

lemma List_get_in_range:
  "0 \<le> i \<Longrightarrow> i < int (length xs) \<Longrightarrow> List_get xs i = Inr (xs ! nat i)"
  by (simp add: List_get_def)

lemma list_all2_right_member:
  "list_all2 P xs ys \<Longrightarrow> y \<in> set ys \<Longrightarrow> \<exists>x\<in>set xs. P x y"
  by (induction rule: list_all2_induct) auto

lemma sort_desc_sorted:
  "sorted_wrt (\<lambda>a b. number_property name b \<le> number_property name a)
     (Collection_sort_descending name fs)"
proof -
  have "sorted (map (\<lambda>f. - number_property name f) (Collection_sort_descending name fs))"
    unfolding Collection_sort_descending_def by (rule sorted_sort_key)
  then show ?thesis by (simp add: sorted_map)
qed

lemma set_sort_desc [simp]: "set (Collection_sort_descending name fs) = set fs"
  by (simp add: Collection_sort_descending_def)

lemma mset_sort_desc [simp]: "mset (Collection_sort_descending name fs) = mset fs"
  by (simp add: Collection_sort_descending_def)

lemma mset_map_sort_desc:
  "mset (map h (Collection_sort_descending name fs)) = mset (map h fs)"
  by simp


section \<open>Surface water, generic script\<close>

lemma createFeature_generic_Inr_iff:
  "createFeature_generic fmt gsw g = Inr f \<longleftrightarrow>
     (\<exists>stats class_number class_key names palettes name palette area.
        g = EDict stats
      \<and> Dictionary_get stats ''transition_class_value'' = Inr class_number
      \<and> Number_format fmt class_number = Inr class_key
      \<and> lookup_names fmt gsw = Inr names \<and> Dictionary_get names class_key = Inr name
      \<and> lookup_palette fmt gsw = Inr palettes \<and> Dictionary_get palettes class_key = Inr palette
      \<and> Dictionary_get stats ''sum'' = Inr area
      \<and> f = Feature
           [(''transition_class_number'', class_number),
            (''transition_class_name'', name),
            (''transition_class_palette'', palette),
            (''area_m2'', area)])"
  unfolding createFeature_generic_def ee_bind_Inr_iff as_dict_Inr_iff
  by (rule iffI; (elim exE conjE)?; blast)

lemma transition_fc_generic_example:
  "transition_fc_generic format_integer example_metadata example_reduction = Inr
     [Feature
       [(''transition_class_number'', ENum 1),
        (''transition_class_name'', EStr ''Permanent''),
        (''transition_class_palette'', EStr ''0000ff''),
        (''area_m2'', ENum 2500000)],
      Feature
       [(''transition_class_number'', ENum 2),
        (''transition_class_name'', EStr ''New permanent''),
        (''transition_class_palette'', EStr ''22b14c''),
        (''area_m2'', ENum 0)],
      Feature
       [(''transition_class_number'', ENum 4),
        (''transition_class_name'', EStr ''Seasonal''),
        (''transition_class_palette'', EStr ''99d9ea''),
        (''area_m2'', ENum 7000000)]]"
  by (simp add: transition_fc_generic_def example_reduction_def example_metadata_def
      Dictionary_get_def createFeature_generic_def Number_format_def format_integer_def
      lookup_names_def lookup_palette_def Element_get_def numToString_def
      Dictionary_fromLists_def)

text \<open>
  Claim C1.  \<open>createFeature\<close> of the generic script yields a feature exactly when its
  argument is a dictionary with the keys \<open>transition_class_value\<close> and \<open>sum\<close> whose
  class value, formatted as a string, is a key of both lookup dictionaries; the feature then
  has \<open>transition_class_number\<close> equal to the group's class value,
  \<open>transition_class_name\<close> and \<open>transition_class_palette\<close> equal to what the formatted
  class value looks up in the dictionaries built from the image's
  \<open>transition_class_values\<close>, \<open>transition_class_names\<close> and \<open>transition_class_palette\<close>,
  and \<open>area_m2\<close> equal to the group's \<open>sum\<close>.  \<open>transition_fc\<close> holds such a feature
  for every group of the reduction, in the order of the groups.
\<close>

theorem createFeature_generic_lookup:
  "(createFeature_generic fmt gsw g = Inr f \<longleftrightarrow>
     (\<exists>stats class_number class_key names palettes name palette area.
        g = EDict stats
      \<and> Dictionary_get stats ''transition_class_value'' = Inr class_number
      \<and> Number_format fmt class_number = Inr class_key
      \<and> lookup_names fmt gsw = Inr names \<and> Dictionary_get names class_key = Inr name
      \<and> lookup_palette fmt gsw = Inr palettes \<and> Dictionary_get palettes class_key = Inr palette
      \<and> Dictionary_get stats ''sum'' = Inr area
      \<and> f = Feature
           [(''transition_class_number'', class_number),
            (''transition_class_name'', name),
            (''transition_class_palette'', palette),
            (''area_m2'', area)]))
   \<and> (transition_fc_generic fmt gsw reduction_results = Inr transition_fc \<longleftrightarrow>
       (\<exists>roi_stats. Dictionary_get reduction_results ''groups'' = Inr (EList roi_stats)
          \<and> list_all2 (\<lambda>stats feature. createFeature_generic fmt gsw stats = Inr feature)
               roi_stats transition_fc))"
  unfolding transition_fc_generic_def ee_bind_Inr_iff as_list_Inr_iff ee_mapM_Inr_iff
  using createFeature_generic_Inr_iff [of fmt gsw g f] by blast

theorem createFeature_generic_lookup_witness:
  "\<exists>names palettes.
      lookup_names format_integer example_metadata = Inr names
    \<and> lookup_palette format_integer example_metadata = Inr palettes
    \<and> Number_format format_integer (ENum 4) = Inr ''4''
    \<and> Dictionary_get names ''4'' = Inr (EStr ''Seasonal'')
    \<and> Dictionary_get palettes ''4'' = Inr (EStr ''99d9ea'')
    \<and> createFeature_generic format_integer example_metadata
         (EDict [(''transition_class_value'', ENum 4), (''sum'', ENum 7000000)])
       = Inr (Feature
           [(''transition_class_number'', ENum 4),
            (''transition_class_name'', EStr ''Seasonal''),
            (''transition_class_palette'', EStr ''99d9ea''),
            (''area_m2'', ENum 7000000)])"
proof -
  let ?g = "EDict [(''transition_class_value'', ENum 4), (''sum'', ENum 7000000)]"
  let ?f = "Feature
           [(''transition_class_number'', ENum 4),
            (''transition_class_name'', EStr ''Seasonal''),
            (''transition_class_palette'', EStr ''99d9ea''),
            (''area_m2'', ENum 7000000)]"
  have fc: "list_all2
      (\<lambda>stats feature. createFeature_generic format_integer example_metadata stats = Inr feature)
      [EDict [(''transition_class_value'', ENum 1), (''sum'', ENum 2500000)],
       EDict [(''transition_class_value'', ENum 2), (''sum'', ENum 0)], ?g]
      [Feature
        [(''transition_class_number'', ENum 1),
         (''transition_class_name'', EStr ''Permanent''),
         (''transition_class_palette'', EStr ''0000ff''),
         (''area_m2'', ENum 2500000)],
       Feature
        [(''transition_class_number'', ENum 2),
         (''transition_class_name'', EStr ''New permanent''),
         (''transition_class_palette'', EStr ''22b14c''),
         (''area_m2'', ENum 0)], ?f]"
    using createFeature_generic_lookup
      [of format_integer example_metadata ?g ?f example_reduction
        "[Feature
          [(''transition_class_number'', ENum 1),
           (''transition_class_name'', EStr ''Permanent''),
           (''transition_class_palette'', EStr ''0000ff''),
           (''area_m2'', ENum 2500000)],
         Feature
          [(''transition_class_number'', ENum 2),
           (''transition_class_name'', EStr ''New permanent''),
           (''transition_class_palette'', EStr ''22b14c''),
           (''area_m2'', ENum 0)], ?f]"]
      transition_fc_generic_example
    by (simp add: example_reduction_def Dictionary_get_def)
  then have f: "createFeature_generic format_integer example_metadata ?g = Inr ?f"
    by simp
  then obtain names palettes class_key where
    "Number_format format_integer (ENum 4) = Inr class_key"
    "lookup_names format_integer example_metadata = Inr names"
    "Dictionary_get names class_key = Inr (EStr ''Seasonal'')"
    "lookup_palette format_integer example_metadata = Inr palettes"
    "Dictionary_get palettes class_key = Inr (EStr ''99d9ea'')"
    unfolding createFeature_generic_Inr_iff by (auto simp: Dictionary_get_def)
  moreover have "Number_format format_integer (ENum 4) = Inr ''4''"
    by (simp add: Number_format_def format_integer_def)
  ultimately show ?thesis using f by auto
qed


section \<open>Surface water, robust script\<close>

lemma length_class_names: "length class_names = 11"
  by (simp add: class_names_def)

lemma length_class_colors: "length class_colors = 11"
  by (simp add: class_colors_def)

lemma class_name_lookup:
  "Algorithms_If (0 \<le> c \<and> c \<le> 10) (List_get class_names c) (Inr (EStr ''Unknown''))
     = Inr (table_name c)"
  by (simp add: Algorithms_If_def table_name_def List_get_in_range length_class_names)

lemma class_color_lookup:
  "Algorithms_If (0 \<le> c \<and> c \<le> 10) (List_get class_colors c) (Inr (EStr ''#999999''))
     = Inr (table_color c)"
  by (simp add: Algorithms_If_def table_color_def List_get_in_range length_class_colors)

lemma table_name_clamp: "table_name (clamp_int32 k) = table_name k"
  by (auto simp: table_name_def clamp_int32_def)

lemma table_color_clamp: "table_color (clamp_int32 k) = table_color k"
  by (auto simp: table_color_def clamp_int32_def)

lemma createFeature_robust_value:
  assumes cv: "map_of g ''transition_class_value'' = Some (ENum (of_int k))"
    and sm: "Dictionary_get_default g ''sum'' (ENum 0) = ENum s"
  shows "createFeature_robust (EDict g) = Inr (Feature
       [(''transition_class_number'', ENum (of_int (clamp_int32 k))),
        (''transition_class_name'', table_name k),
        (''transition_class_palette'', table_color k),
        (''area_km2'', ENum (s / 1000000))])"
proof -
  have c: "ee_bind (Dictionary_get g ''transition_class_value'') Number_toInt
      = Inr (clamp_int32 k)"
    by (simp add: cv Dictionary_get_def Number_toInt_of_int)
  show ?thesis
    unfolding createFeature_robust_def as_dict.simps ee_bind_Inr c Let_def
      class_name_lookup class_color_lookup table_name_clamp table_color_clamp sm
    by (simp add: Number_divide_def)
qed

text \<open>
  Claim C9.  On every group dictionary (the class value an integer, as every value of
  the band \<open>transition\<close> is; \<open>sum\<close> a number or absent) \<open>createFeature\<close> of the robust
  script yields a feature.  For a class value outside 0 to 10 its name is \<open>Unknown\<close>
  and its palette \<open>#999999\<close>; inside 0 to 10 the class value is an index of both
  hard-coded lists, and name and palette are the lists' entries there.  Without \<open>sum\<close>
  the area is 0; with it the area is \<open>sum\<close> divided by \<open>1e6\<close>.
\<close>

theorem createFeature_robust_total:
  assumes cv: "map_of g ''transition_class_value'' = Some (ENum (of_int k))"
    and sm: "map_of g ''sum'' = None \<or> (\<exists>s. map_of g ''sum'' = Some (ENum s))"
  shows "\<exists>f. createFeature_robust (EDict g) = Inr f
     \<and> (k < 0 \<or> 10 < k \<longrightarrow>
          Feature_get f ''transition_class_name'' = EStr ''Unknown''
          \<and> Feature_get f ''transition_class_palette'' = EStr ''#999999'')
     \<and> (0 \<le> k \<and> k \<le> 10 \<longrightarrow>
          nat k < length class_names \<and> nat k < length class_colors
          \<and> Feature_get f ''transition_class_name'' = class_names ! nat k
          \<and> Feature_get f ''transition_class_palette'' = class_colors ! nat k)
     \<and> (map_of g ''sum'' = None \<longrightarrow> Feature_get f ''area_km2'' = ENum 0)
     \<and> (\<forall>s. map_of g ''sum'' = Some (ENum s) \<longrightarrow>
          Feature_get f ''area_km2'' = ENum (s / 1000000))"
proof -
  obtain s where s: "Dictionary_get_default g ''sum'' (ENum 0) = ENum s"
    and s0: "map_of g ''sum'' = None \<longrightarrow> s = 0"
    and s1: "\<forall>s'. map_of g ''sum'' = Some (ENum s') \<longrightarrow> s = s'"
    using sm by (auto simp: Dictionary_get_default_def)
  note v = createFeature_robust_value [OF cv s]
  show ?thesis
    using s0 s1
    by (auto simp: v Feature_get_def Element_get_def table_name_def table_color_def
        length_class_names length_class_colors)
qed

theorem createFeature_robust_total_witness:
  "(\<exists>f. createFeature_robust (EDict [(''transition_class_value'', ENum 11)]) = Inr f
      \<and> Feature_get f ''transition_class_name'' = EStr ''Unknown''
      \<and> Feature_get f ''transition_class_palette'' = EStr ''#999999''
      \<and> Feature_get f ''area_km2'' = ENum 0)
   \<and> (\<exists>f. createFeature_robust
            (EDict [(''transition_class_value'', ENum 3), (''sum'', ENum 2500000)]) = Inr f
      \<and> Feature_get f ''transition_class_name'' = EStr ''Lost Permanent''
      \<and> Feature_get f ''transition_class_palette'' = EStr ''#d1102d''
      \<and> Feature_get f ''area_km2'' = ENum (5 / 2))"
proof -
  have a: "map_of [(''transition_class_value'', ENum 11)] ''transition_class_value''
      = Some (ENum (of_int 11))"
    by simp
  have b: "map_of [(''transition_class_value'', ENum 11)] ''sum'' = None
      \<or> (\<exists>s. map_of [(''transition_class_value'', ENum 11)] ''sum'' = Some (ENum s))"
    by simp
  have c: "map_of [(''transition_class_value'', ENum 3), (''sum'', ENum 2500000)]
      ''transition_class_value'' = Some (ENum (of_int 3))"
    by simp
  have d: "map_of [(''transition_class_value'', ENum 3), (''sum'', ENum 2500000)] ''sum'' = None
      \<or> (\<exists>s. map_of [(''transition_class_value'', ENum 3), (''sum'', ENum 2500000)] ''sum''
            = Some (ENum s))"
    by simp
  have n3: "class_names ! nat 3 = EStr ''Lost Permanent''"
    by (simp add: class_names_def numeral_3_eq_3)
  have c3: "class_colors ! nat 3 = EStr ''#d1102d''"
    by (simp add: class_colors_def numeral_3_eq_3)
  from createFeature_robust_total [OF a b]
  have first: "\<exists>f. createFeature_robust (EDict [(''transition_class_value'', ENum 11)]) = Inr f
      \<and> Feature_get f ''transition_class_name'' = EStr ''Unknown''
      \<and> Feature_get f ''transition_class_palette'' = EStr ''#999999''
      \<and> Feature_get f ''area_km2'' = ENum 0"
    by simp
  from createFeature_robust_total [OF c d]
  obtain f where "createFeature_robust
            (EDict [(''transition_class_value'', ENum 3), (''sum'', ENum 2500000)]) = Inr f"
    and "Feature_get f ''transition_class_name'' = class_names ! nat 3"
    and "Feature_get f ''transition_class_palette'' = class_colors ! nat 3"
    and "Feature_get f ''area_km2'' = ENum (2500000 / 1000000)"
    by auto
  then have second: "\<exists>f. createFeature_robust
            (EDict [(''transition_class_value'', ENum 3), (''sum'', ENum 2500000)]) = Inr f
      \<and> Feature_get f ''transition_class_name'' = EStr ''Lost Permanent''
      \<and> Feature_get f ''transition_class_palette'' = EStr ''#d1102d''
      \<and> Feature_get f ''area_km2'' = ENum (5 / 2)"
    using n3 c3 by auto
  from first second show ?thesis by blast
qed


section \<open>Surface water: the two scripts on the same reduction\<close>

lemma group_class_SomeD:
  "group_class g = Some k \<Longrightarrow>
     \<exists>d. g = EDict d \<and> map_of d ''transition_class_value'' = Some (ENum (of_int k))
       \<and> clamp_int32 k = k"
  by (cases g) (auto simp: clamp_int32_def split: option.splits ee_value.splits if_splits)

lemma group_sum_SomeD:
  "group_sum g = Some s \<Longrightarrow> \<exists>d. g = EDict d \<and> map_of d ''sum'' = Some (ENum s)"
  by (cases g) (auto split: option.splits ee_value.splits)

lemma createFeature_robust_group:
  assumes "group_class g = Some k" "group_sum g = Some s"
  shows "createFeature_robust g = Inr (km2_feature k s)"
proof -
  obtain d where d: "g = EDict d" "map_of d ''transition_class_value'' = Some (ENum (of_int k))"
    "clamp_int32 k = k"
    using group_class_SomeD [OF assms(1)] by blast
  have "map_of d ''sum'' = Some (ENum s)"
    using group_sum_SomeD [OF assms(2)] d(1) by auto
  then have "Dictionary_get_default d ''sum'' (ENum 0) = ENum s"
    by (simp add: Dictionary_get_default_def)
  from createFeature_robust_value [OF d(2) this] show ?thesis
    by (simp add: d km2_feature_def)
qed

lemma createFeature_generic_group:
  assumes "group_class g = Some k" "group_sum g = Some s"
    and "createFeature_generic fmt gsw g = Inr f"
  shows "Feature_get f ''transition_class_number'' = ENum (of_int k)
       \<and> number_property ''area_m2'' f = s"
proof -
  obtain d where d: "g = EDict d" "map_of d ''transition_class_value'' = Some (ENum (of_int k))"
    using group_class_SomeD [OF assms(1)] by blast
  have s: "map_of d ''sum'' = Some (ENum s)"
    using group_sum_SomeD [OF assms(2)] d(1) by auto
  from assms(3) show ?thesis
    unfolding createFeature_generic_Inr_iff
    by (auto simp: d s Dictionary_get_def Feature_get_def Element_get_def number_property_def)
qed

lemma filter_map_related:
  assumes "list_all2 P xs ys"
    and "\<And>x y. P x y \<Longrightarrow> x \<in> set xs \<Longrightarrow> n y = N x \<and> a y = A x"
  shows "map (\<lambda>y. (n y, a y / c)) (filter (\<lambda>y. 0 < a y) ys)
       = map (\<lambda>x. (N x, A x / c)) (filter (\<lambda>x. 0 < A x) xs)"
  using assms by (induction rule: list_all2_induct) auto

lemma km2_feature_props [simp]:
  "Feature_get (km2_feature k s) ''transition_class_number'' = ENum (of_int k)"
  "Feature_get (km2_feature k s) ''transition_class_name'' = table_name k"
  "Feature_get (km2_feature k s) ''transition_class_palette'' = table_color k"
  "number_property ''area_km2'' (km2_feature k s) = s / 1000000"
  "Filter_gt ''area_km2'' 0 (km2_feature k s) \<longleftrightarrow> 0 < s"
  by (simp_all add: km2_feature_def Feature_get_def Element_get_def number_property_def
      Filter_gt_def)

lemma transition_fc_robust_example:
  "transition_fc_robust example_reduction = Inr
     [Feature
       [(''transition_class_number'', ENum 4),
        (''transition_class_name'', EStr ''Seasonal Water''),
        (''transition_class_palette'', EStr ''#99d9ea''),
        (''area_km2'', ENum 7)],
      Feature
       [(''transition_class_number'', ENum 1),
        (''transition_class_name'', EStr ''Permanent Water''),
        (''transition_class_palette'', EStr ''#0000ff''),
        (''area_km2'', ENum (5 / 2))]]"
  by code_simp

text \<open>
  Claim C4.  Let both scripts receive the same output of the grouped sum reduction, and
  let the generic script's lookups succeed.  Then the robust script yields a collection
  too, and: a robust and a generic feature with the same class number have
  \<open>area_km2 = area_m2 / 1e6\<close>; the robust features carry, up to order, the class numbers
  and scaled areas of exactly the generic features whose area is strictly positive; they
  are sorted by \<open>area_km2\<close> descending; and their names and palettes come from the
  hard-coded table.
\<close>

theorem gsw_variants_agree:
  assumes wf: "grouped_sum_output reduction_results"
    and gen: "transition_fc_generic fmt gsw reduction_results = Inr generic_fc"
  shows "\<exists>robust_fc. transition_fc_robust reduction_results = Inr robust_fc
     \<and> (\<forall>r\<in>set robust_fc. \<forall>g\<in>set generic_fc.
          Feature_get r ''transition_class_number'' = Feature_get g ''transition_class_number''
          \<longrightarrow> number_property ''area_km2'' r = number_property ''area_m2'' g / 1000000)
     \<and> mset (map (\<lambda>r. (Feature_get r ''transition_class_number'',
                        number_property ''area_km2'' r)) robust_fc)
       = mset (map (\<lambda>g. (Feature_get g ''transition_class_number'',
                          number_property ''area_m2'' g / 1000000))
                (filter (\<lambda>g. 0 < number_property ''area_m2'' g) generic_fc))
     \<and> sorted_wrt (\<lambda>a b. number_property ''area_km2'' b \<le> number_property ''area_km2'' a)
          robust_fc
     \<and> (\<forall>r\<in>set robust_fc. \<exists>k.
          Feature_get r ''transition_class_number'' = ENum (of_int k)
          \<and> Feature_get r ''transition_class_name'' = table_name k
          \<and> Feature_get r ''transition_class_palette'' = table_color k)"
proof -
  from wf obtain groups where
    g: "map_of reduction_results ''groups'' = Some (EList groups)"
    and shape: "\<forall>x\<in>set groups. group_class x \<noteq> None \<and> group_sum x \<noteq> None"
    and dist: "distinct (map group_class groups)"
    by (auto simp: grouped_sum_output_def list_all_iff split: option.splits ee_value.splits)
  define K where "K x = the (group_class x)" for x
  define S where "S x = the (group_sum x)" for x
  define R where "R x = km2_feature (K x) (S x)" for x
  have KS: "group_class x = Some (K x) \<and> group_sum x = Some (S x)" if "x \<in> set groups" for x
    using shape that by (auto simp: K_def S_def)
  have rob: "createFeature_robust x = Inr (R x)" if "x \<in> set groups" for x
    using KS [OF that] createFeature_robust_group by (simp add: R_def)
  have mapM: "ee_mapM createFeature_robust groups = Inr (map R groups)"
    using rob by (rule ee_mapM_map)
  let ?robust = "Collection_sort_descending ''area_km2''
      (filter (Filter_gt ''area_km2'' 0) (map R groups))"
  have robust: "transition_fc_robust reduction_results = Inr ?robust"
  proof (cases "groups = []")
    case True
    then show ?thesis
      by (simp add: transition_fc_robust_def Dictionary_get_def g)
  next
    case False
    then show ?thesis
      by (simp add: transition_fc_robust_def Dictionary_get_def g mapM)
  qed
  have all2: "list_all2 (\<lambda>x f. createFeature_generic fmt gsw x = Inr f) groups generic_fc"
    using gen
    by (simp add: transition_fc_generic_def Dictionary_get_def g ee_mapM_Inr_iff)
  have genp: "Feature_get f ''transition_class_number'' = ENum (of_int (K x))
      \<and> number_property ''area_m2'' f = S x"
    if "createFeature_generic fmt gsw x = Inr f" "x \<in> set groups" for x f
    using createFeature_generic_group KS [OF that(2)] that(1) by blast
  have inj: "K x = K y \<Longrightarrow> x = y" if "x \<in> set groups" "y \<in> set groups" for x y
  proof -
    assume "K x = K y"
    then have "group_class x = group_class y"
      using KS [OF that(1)] KS [OF that(2)] by simp
    moreover have "inj_on group_class (set groups)"
      using dist by (simp add: distinct_map)
    ultimately show "x = y" using that by (auto dest: inj_onD)
  qed
  have agree: "\<forall>r\<in>set ?robust. \<forall>f\<in>set generic_fc.
      Feature_get r ''transition_class_number'' = Feature_get f ''transition_class_number''
      \<longrightarrow> number_property ''area_km2'' r = number_property ''area_m2'' f / 1000000"
  proof (intro ballI impI)
    fix r f
    assume r: "r \<in> set ?robust" and f: "f \<in> set generic_fc"
      and same: "Feature_get r ''transition_class_number''
        = Feature_get f ''transition_class_number''"
    from r obtain x where x: "x \<in> set groups" "r = R x" by auto
    from f all2 obtain y where y: "y \<in> set groups" "createFeature_generic fmt gsw y = Inr f"
      using list_all2_right_member by force
    from genp [OF y(2) y(1)] same x(2) have "K x = K y" by (simp add: R_def)
    then have "x = y" using inj x(1) y(1) by blast
    then show "number_property ''area_km2'' r = number_property ''area_m2'' f / 1000000"
      using genp [OF y(2) y(1)] x(2) by (simp add: R_def)
  qed
  have "map (\<lambda>f. (Feature_get f ''transition_class_number'',
                  number_property ''area_m2'' f / 1000000))
          (filter (\<lambda>f. 0 < number_property ''area_m2'' f) generic_fc)
      = map (\<lambda>x. (ENum (of_int (K x)), S x / 1000000)) (filter (\<lambda>x. 0 < S x) groups)"
    using all2 genp by (rule filter_map_related)
  moreover have "map (\<lambda>r. (Feature_get r ''transition_class_number'',
                           number_property ''area_km2'' r))
          (filter (Filter_gt ''area_km2'' 0) (map R groups))
      = map (\<lambda>x. (ENum (of_int (K x)), S x / 1000000)) (filter (\<lambda>x. 0 < S x) groups)"
    by (simp add: filter_map comp_def R_def)
  ultimately have perm: "mset (map (\<lambda>r. (Feature_get r ''transition_class_number'',
                        number_property ''area_km2'' r)) ?robust)
       = mset (map (\<lambda>g. (Feature_get g ''transition_class_number'',
                          number_property ''area_m2'' g / 1000000))
                (filter (\<lambda>g. 0 < number_property ''area_m2'' g) generic_fc))"
    by (simp only: mset_map_sort_desc)
  have tab: "\<forall>r\<in>set ?robust. \<exists>k.
          Feature_get r ''transition_class_number'' = ENum (of_int k)
          \<and> Feature_get r ''transition_class_name'' = table_name k
          \<and> Feature_get r ''transition_class_palette'' = table_color k"
    by (auto simp: R_def)
  show ?thesis
    using robust agree perm sort_desc_sorted tab by blast
qed

theorem gsw_variants_agree_witness:
  "grouped_sum_output example_reduction
   \<and> (\<exists>generic_fc robust_fc.
        transition_fc_generic format_integer example_metadata example_reduction = Inr generic_fc
      \<and> transition_fc_robust example_reduction = Inr robust_fc
      \<and> map (number_property ''area_m2'') generic_fc = [2500000, 0, 7000000]
      \<and> map (number_property ''area_km2'') robust_fc = [7, 5 / 2]
      \<and> sorted_wrt (\<lambda>a b. number_property ''area_km2'' b \<le> number_property ''area_km2'' a)
           robust_fc)"
proof -
  have wf: "grouped_sum_output example_reduction"
    by (simp add: grouped_sum_output_def example_reduction_def)
  from gsw_variants_agree [OF wf transition_fc_generic_example]
  obtain robust_fc where r: "transition_fc_robust example_reduction = Inr robust_fc"
    and s: "sorted_wrt (\<lambda>a b. number_property ''area_km2'' b \<le> number_property ''area_km2'' a)
      robust_fc"
    by blast
  let ?G = "[Feature
        [(''transition_class_number'', ENum 1),
         (''transition_class_name'', EStr ''Permanent''),
         (''transition_class_palette'', EStr ''0000ff''),
         (''area_m2'', ENum 2500000)],
       Feature
        [(''transition_class_number'', ENum 2),
         (''transition_class_name'', EStr ''New permanent''),
         (''transition_class_palette'', EStr ''22b14c''),
         (''area_m2'', ENum 0)],
       Feature
        [(''transition_class_number'', ENum 4),
         (''transition_class_name'', EStr ''Seasonal''),
         (''transition_class_palette'', EStr ''99d9ea''),
         (''area_m2'', ENum 7000000)]]"
  from r have km2: "map (number_property ''area_km2'') robust_fc = [7, 5 / 2]"
    unfolding transition_fc_robust_example
    by (auto simp: number_property_def Feature_get_def Element_get_def)
  have m2: "map (number_property ''area_m2'') ?G = [2500000, 0, 7000000]"
    by (simp add: number_property_def Feature_get_def Element_get_def)
  show ?thesis
  proof (intro conjI exI)
    show "grouped_sum_output example_reduction" by (rule wf)
    show "transition_fc_generic format_integer example_metadata example_reduction = Inr ?G"
      by (rule transition_fc_generic_example)
    show "transition_fc_robust example_reduction = Inr robust_fc" by (rule r)
    show "map (number_property ''area_m2'') ?G = [2500000, 0, 7000000]" by (rule m2)
    show "map (number_property ''area_km2'') robust_fc = [7, 5 / 2]" by (rule km2)
    show "sorted_wrt (\<lambda>a b. number_property ''area_km2'' b \<le> number_property ''area_km2'' a)
      robust_fc" by (rule s)
  qed
qed


section \<open>The scripts' requests\<close>

lemma strict_eq_JNum: "strict_eq v (JNum n) \<longleftrightarrow> v = JNum n"
  by (cases v) auto


text \<open>
  Claim C8.  In the CHIRPS rainfall script with \<open>use_custom_aoi\<close> false: if
  \<open>admin_level\<close> is any value other than 0, 1 or 2, the run consists of loading the three
  boundary collections and throwing \<open>admin_level must be 0, 1, or 2\<close>, so the CHIRPS
  collection is not loaded and no export is queued; if \<open>admin_level\<close> is 0, 1 or 2,
  nothing is thrown.
\<close>

theorem chirps_admin_level_guard:
  assumes "\<not> use_custom_aoi cfg"
  shows "(admin_level cfg \<notin> {JNum 0, JNum 1, JNum 2} \<longrightarrow>
           run (chirps_statements cfg) =
             [Load EE_FeatureCollection ''FAO/GAUL/2015/level0'',
              Load EE_FeatureCollection ''FAO/GAUL/2015/level1'',
              Load EE_FeatureCollection ''FAO/GAUL/2015/level2'',
              Throw (Error ''admin_level must be 0, 1, or 2'')]
           \<and> ''UCSB-CHG/CHIRPS/DAILY'' \<notin> set (loads (run (chirps_statements cfg)))
           \<and> exports (run (chirps_statements cfg)) = [])
       \<and> (admin_level cfg \<in> {JNum 0, JNum 1, JNum 2} \<longrightarrow>
           thrown (run (chirps_statements cfg)) = [])"
  using assms by (auto simp: chirps_statements_def strict_eq_JNum)

theorem chirps_admin_level_guard_witness:
  "thrown (run (chirps_statements
      \<lparr>use_custom_aoi = False, AOI_imported = False, admin_level = JNum 3\<rparr>))
     = [Error ''admin_level must be 0, 1, or 2'']
   \<and> exports (run (chirps_statements
      \<lparr>use_custom_aoi = False, AOI_imported = False, admin_level = JStr ''2''\<rparr>)) = []
   \<and> thrown (run (chirps_statements
      \<lparr>use_custom_aoi = False, AOI_imported = False, admin_level = JNum 2\<rparr>)) = []"
proof -
  have a: "\<not> use_custom_aoi
      \<lparr>use_custom_aoi = False, AOI_imported = False, admin_level = JNum 3\<rparr>"
    by simp
  have b: "\<not> use_custom_aoi
      \<lparr>use_custom_aoi = False, AOI_imported = False, admin_level = JStr ''2''\<rparr>"
    by simp
  have c: "\<not> use_custom_aoi
      \<lparr>use_custom_aoi = False, AOI_imported = False, admin_level = JNum 2\<rparr>"
    by simp
  from chirps_admin_level_guard [OF a] chirps_admin_level_guard [OF b]
    chirps_admin_level_guard [OF c]
  show ?thesis by simp
qed







section \<open>Rainfall script: baseline and anomaly\<close>

lemma band_reduced: "band (reduced f) = f"
  by (simp add: reduced_def)

lemma calendar_in_range_same: "calendar_in_range y y v \<longleftrightarrow> v = y"
  by (auto simp: calendar_in_range_def)

lemma season_filter:
  "Collection_filter (Filter_calendarRange_year y y)
     (Collection_filter (Filter_dayOfYear a b) ic)
   = filter (in_season y a b) ic"
  unfolding Collection_filter_def filter_filter
  by (intro filter_cong)
     (auto simp: in_season_def calendar_in_range_same split: option.splits)

lemma yearly_band:
  "band (Image_set
             (Image_clip
               (ImageCollection_sum
                 (Collection_filter (Filter_calendarRange_year y y) (chirps_mam cfg chirps)))
               AOIgeom)
             k v) p
   = season_total chirps AOIgeom (doy_start cfg) (doy_end cfg) y p"
  by (simp add: chirps_mam_def season_filter ImageCollection_sum_def
      unmasked_values_def season_total_def Image_set_def Image_clip_def band_reduced)

lemma map_filter_map: "List.map_filter f (map g xs) = List.map_filter (f \<circ> g) xs"
  by (induction xs) (auto split: option.splits)

lemma map_filter_all_Some:
  "\<forall>x\<in>set xs. f x \<noteq> None \<Longrightarrow> List.map_filter f xs = map (\<lambda>x. the (f x)) xs"
  by (induction xs) auto

lemma chirps_baseline_band:
  "band (chirps_baseline cfg chirps AOIgeom) p
     = mean_of_years (season_total chirps AOIgeom (doy_start cfg) (doy_end cfg))
         (baseline_start_year cfg) (baseline_end_year cfg) p"
  by (simp only: chirps_baseline_def ImageCollection_mean_def band_reduced unmasked_values_def
      map_filter_map comp_def yearly_band mean_of_years_def years_def
      List_sequence_def)

lemma mean_of_years_full:
  assumes "y0 \<le> y1" and "\<forall>y\<in>{y0..y1}. yearly y p \<noteq> None"
  shows "mean_of_years yearly y0 y1 p
     = Some ((\<Sum>y = y0..y1. the (yearly y p)) / of_int (y1 - y0 + 1))"
proof -
  have m: "List.map_filter (\<lambda>y. yearly y p) [y0..y1] = map (\<lambda>y. the (yearly y p)) [y0..y1]"
    using assms(2) by (intro map_filter_all_Some) auto
  have ne: "[y0..y1] \<noteq> []" using assms(1) by (simp add: upto.simps)
  have len: "length [y0..y1] = nat (y1 - y0 + 1)" by simp
  have s: "sum_list (map (\<lambda>y. the (yearly y p)) [y0..y1]) = (\<Sum>y = y0..y1. the (yearly y p))"
    by (simp add: sum_list_distinct_conv_sum_set)
  show ?thesis
    unfolding mean_of_years_def m
    using ne s len assms(1)
    by (cases "[y0..y1]") (auto simp del: length_upto)
qed

lemmas rainfall_defs = chirps_baseline_def chirps_mam_def years_def List_sequence_def
  Collection_filter_def ImageCollection_mean_def ImageCollection_sum_def unmasked_values_def
  reduced_def Image_set_def Image_clip_def calendar_in_range_def chirps_study_def
  rainfall_anomaly_def baseline_masked_def Image_subtract_def Image_updateMask_def
  Image_mask_def

lemmas example_defs = example_chirps_def example_settings_def example_AOI_def daily_def

text \<open>
  Claim C2.  For all settings, \<open>chirps_baseline\<close> is at every pixel the mean over the
  years from \<open>baseline_start_year\<close> to \<open>baseline_end_year\<close> of the yearly sums of the
  daily images inside the day-of-year window from \<open>doy_start\<close> to \<open>doy_end\<close>, clipped
  to the area of interest; the mean is taken over the years that have a value at the
  pixel.  Where every year has one, it is the sum of the yearly sums divided by the number
  of years.
\<close>

theorem chirps_baseline_mean:
  "band (chirps_baseline cfg chirps AOIgeom) p
       = mean_of_years (season_total chirps AOIgeom (doy_start cfg) (doy_end cfg))
           (baseline_start_year cfg) (baseline_end_year cfg) p
     \<and> (baseline_start_year cfg \<le> baseline_end_year cfg
        \<and> (\<forall>y\<in>{baseline_start_year cfg..baseline_end_year cfg}.
              season_total chirps AOIgeom (doy_start cfg) (doy_end cfg) y p \<noteq> None)
        \<longrightarrow> band (chirps_baseline cfg chirps AOIgeom) p
            = Some ((\<Sum>y = baseline_start_year cfg..baseline_end_year cfg.
                       the (season_total chirps AOIgeom (doy_start cfg) (doy_end cfg) y p))
                    / of_int (baseline_end_year cfg - baseline_start_year cfg + 1)))"
proof (intro conjI impI)
  show "band (chirps_baseline cfg chirps AOIgeom) p
       = mean_of_years (season_total chirps AOIgeom (doy_start cfg) (doy_end cfg))
           (baseline_start_year cfg) (baseline_end_year cfg) p"
    by (rule chirps_baseline_band)
next
  assume full: "baseline_start_year cfg \<le> baseline_end_year cfg
        \<and> (\<forall>y\<in>{baseline_start_year cfg..baseline_end_year cfg}.
              season_total chirps AOIgeom (doy_start cfg) (doy_end cfg) y p \<noteq> None)"
  then have "mean_of_years (season_total chirps AOIgeom (doy_start cfg) (doy_end cfg))
           (baseline_start_year cfg) (baseline_end_year cfg) p
       = Some ((\<Sum>y = baseline_start_year cfg..baseline_end_year cfg.
                       the (season_total chirps AOIgeom (doy_start cfg) (doy_end cfg) y p))
                    / of_int (baseline_end_year cfg - baseline_start_year cfg + 1))"
    by (intro mean_of_years_full) simp_all
  then show "band (chirps_baseline cfg chirps AOIgeom) p
            = Some ((\<Sum>y = baseline_start_year cfg..baseline_end_year cfg.
                       the (season_total chirps AOIgeom (doy_start cfg) (doy_end cfg) y p))
                    / of_int (baseline_end_year cfg - baseline_start_year cfg + 1))"
    by (simp only: chirps_baseline_band)
qed

theorem chirps_baseline_mean_witness:
  "baseline_start_year example_settings \<le> baseline_end_year example_settings
   \<and> season_total example_chirps example_AOI 1 100 2000 0 = Some 8
   \<and> season_total example_chirps example_AOI 1 100 2001 0 = Some 4
   \<and> mean_of_years (season_total example_chirps example_AOI 1 100) 2000 2001 0 = Some 6
   \<and> band (chirps_baseline example_settings example_chirps example_AOI) 0 = Some ((8 + 4) / 2)
   \<and> season_total example_chirps example_AOI 150 15 2001 0 = Some 104
   \<and> band (chirps_baseline (example_settings\<lparr>doy_start := 150, doy_end := 15\<rparr>)
         example_chirps example_AOI) 0 = Some ((3 + 104) / 2)"
proof -
  have o: "baseline_start_year example_settings \<le> baseline_end_year example_settings"
    by (simp add: example_settings_def)
  have a: "season_total example_chirps example_AOI 1 100 2000 0 = Some 8"
    by (simp add: season_total_def in_season_def calendar_in_range_def example_defs)
  have b: "season_total example_chirps example_AOI 1 100 2001 0 = Some 4"
    by (simp add: season_total_def in_season_def calendar_in_range_def example_defs)
  have yrs: "{2000..2001} = {2000, 2001::int}"
    by auto
  have every: "\<forall>y\<in>{baseline_start_year example_settings..baseline_end_year example_settings}.
      season_total example_chirps example_AOI
        (doy_start example_settings) (doy_end example_settings) y 0 \<noteq> None"
    using a b by (simp add: example_settings_def yrs)
  note inst = chirps_baseline_mean [of example_settings example_chirps example_AOI 0]
  from inst o every
  have "band (chirps_baseline example_settings example_chirps example_AOI) 0
      = Some ((\<Sum>y = baseline_start_year example_settings..baseline_end_year example_settings.
                 the (season_total example_chirps example_AOI
                       (doy_start example_settings) (doy_end example_settings) y 0))
              / of_int (baseline_end_year example_settings
                        - baseline_start_year example_settings + 1))"
    by blast
  then have c: "band (chirps_baseline example_settings example_chirps example_AOI) 0
      = Some ((8 + 4) / 2)"
    using a b by (simp add: example_settings_def yrs)
  from inst c
  have m: "mean_of_years (season_total example_chirps example_AOI 1 100) 2000 2001 0 = Some 6"
    by (simp add: example_settings_def)
  have a': "season_total example_chirps example_AOI 150 15 2000 0 = Some 3"
    by (simp add: season_total_def in_season_def calendar_in_range_def example_defs)
  have b': "season_total example_chirps example_AOI 150 15 2001 0 = Some 104"
    by (simp add: season_total_def in_season_def calendar_in_range_def example_defs)
  let ?wrapping = "example_settings\<lparr>doy_start := 150, doy_end := 15\<rparr>"
  have every': "\<forall>y\<in>{baseline_start_year ?wrapping..baseline_end_year ?wrapping}.
      season_total example_chirps example_AOI
        (doy_start ?wrapping) (doy_end ?wrapping) y 0 \<noteq> None"
    using a' b' by (simp add: example_settings_def yrs)
  have o': "baseline_start_year ?wrapping \<le> baseline_end_year ?wrapping"
    by (simp add: example_settings_def)
  from chirps_baseline_mean [of ?wrapping example_chirps example_AOI 0] o' every'
  have "band (chirps_baseline ?wrapping example_chirps example_AOI) 0
      = Some ((\<Sum>y = baseline_start_year ?wrapping..baseline_end_year ?wrapping.
                 the (season_total example_chirps example_AOI
                       (doy_start ?wrapping) (doy_end ?wrapping) y 0))
              / of_int (baseline_end_year ?wrapping - baseline_start_year ?wrapping + 1))"
    by blast
  then have c': "band (chirps_baseline ?wrapping example_chirps example_AOI) 0
      = Some ((3 + 104) / 2)"
    using a' b' by (simp add: example_settings_def yrs)
  from o a b m c b' c' show ?thesis by blast
qed

text \<open>
  Claim C3.  At every pixel \<open>rainfall_anomaly\<close> is \<open>chirps_study\<close> minus
  \<open>chirps_baseline\<close> where both have a value and is masked elsewhere; the baseline that
  is subtracted has first been masked with the mask of \<open>chirps_study\<close>, so it is the
  baseline where the study total has a value and masked where it has none; and
  \<open>rainfall_anomaly\<close> is masked wherever \<open>chirps_study\<close> is.
\<close>

theorem rainfall_anomaly_difference:
  "band (rainfall_anomaly cfg chirps AOIgeom) p
     = (case band (chirps_study cfg chirps AOIgeom) p of
          None \<Rightarrow> None
        | Some s \<Rightarrow> (case band (chirps_baseline cfg chirps AOIgeom) p of
                      None \<Rightarrow> None
                    | Some b \<Rightarrow> Some (s - b)))
   \<and> band (baseline_masked cfg chirps AOIgeom) p
     = (if band (chirps_study cfg chirps AOIgeom) p = None then None
        else band (chirps_baseline cfg chirps AOIgeom) p)
   \<and> band (rainfall_anomaly cfg chirps AOIgeom) p
     = band (Image_subtract (chirps_study cfg chirps AOIgeom)
              (baseline_masked cfg chirps AOIgeom)) p
   \<and> (band (chirps_study cfg chirps AOIgeom) p = None
        \<longrightarrow> band (rainfall_anomaly cfg chirps AOIgeom) p = None)"
  by (auto simp: rainfall_anomaly_def Image_subtract_def baseline_masked_def
      Image_updateMask_def Image_mask_def chirps_study_def Image_clip_def band_reduced
      split: option.splits)

theorem rainfall_anomaly_difference_witness:
  "band (chirps_study example_settings example_chirps example_AOI) 0 = Some 10
   \<and> band (chirps_baseline example_settings example_chirps example_AOI) 0 = Some 6
   \<and> band (rainfall_anomaly example_settings example_chirps example_AOI) 0 = Some 4
   \<and> band (chirps_study example_settings example_chirps example_AOI) 1 = None
   \<and> band (chirps_baseline example_settings example_chirps example_AOI) 1 = Some (3 / 2)
   \<and> band (rainfall_anomaly example_settings example_chirps example_AOI) 1 = None"
proof -
  have s0: "band (chirps_study example_settings example_chirps example_AOI) 0 = Some 10"
    by (simp add: rainfall_defs example_defs)
  have b0: "band (chirps_baseline example_settings example_chirps example_AOI) 0 = Some 6"
    by (simp add: rainfall_defs example_defs)
  have s1: "band (chirps_study example_settings example_chirps example_AOI) 1 = None"
    by (simp add: rainfall_defs example_defs)
  have b1: "band (chirps_baseline example_settings example_chirps example_AOI) 1 = Some (3 / 2)"
    by (simp add: rainfall_defs example_defs)
  from rainfall_anomaly_difference [of example_settings example_chirps example_AOI 0] s0 b0
  have a0: "band (rainfall_anomaly example_settings example_chirps example_AOI) 0 = Some 4"
    by simp
  from rainfall_anomaly_difference [of example_settings example_chirps example_AOI 1] s1
  have a1: "band (rainfall_anomaly example_settings example_chirps example_AOI) 1 = None"
    by simp
  from s0 b0 a0 s1 b1 a1 show ?thesis by blast
qed


section \<open>The composition as the scripts write it\<close>

lemmas object_defs = rainfall_anomaly_object_def chirps_study_object_def
  baseline_masked_object_def chirps_baseline_object_def years_object_def chirps_mam_object_def
  monthlyNDVI_object_def meanMonthlyNDVI_object_def referenceImage_object_def
  computeAnomaly_object_def monthlyNDVIAnomalies_object_def
  monthlyNDVIAnomalies_anom_object_def withNDVI_baseline_object_def ndvi_baseline_object_def
  study_meanNDVI_object_def meanAnomaly_object_def anomaly_AOI_object_def

lemma rainfall_anomaly_calls:
  "primitives rainfall_anomaly_object =
     [''clip'', ''subtract'', ''clip'', ''sum'', ''filter'', ''ee.Filter.date'',
      ''updateMask'', ''mean'', ''ee.ImageCollection.fromImages'', ''map'',
      ''ee.List.sequence'', ''set'', ''clip'', ''sum'', ''filter'', ''filter'',
      ''ee.Filter.dayOfYear'', ''ee.Filter.calendarRange'', ''mask'', ''clip'', ''sum'',
      ''filter'', ''ee.Filter.date'']"
  by (simp add: object_defs)

lemma monthlyNDVI_calls:
  "primitives monthlyNDVI_object =
     [''ee.ImageCollection.fromImages'', ''flatten'', ''map'', ''ee.List.sequence'', ''map'',
      ''ee.List.sequence'', ''set'', ''mean'', ''filter'', ''filter'', ''select'',
      ''ee.Filter.calendarRange'', ''ee.Filter.calendarRange'', ''millis'',
      ''ee.Date.fromYMD'']"
  by (simp add: monthlyNDVI_object_def)

lemma meanMonthlyNDVI_calls:
  "primitives meanMonthlyNDVI_object =
     [''ee.ImageCollection.fromImages'', ''map'', ''ee.List.sequence'', ''set'', ''mean'',
      ''filter'', ''filterDate''] @ primitives monthlyNDVI_object @ [''ee.Filter.eq'']"
  by (simp add: meanMonthlyNDVI_object_def)

lemma referenceImage_calls:
  "primitives referenceImage_object =
     [''first'', ''filter''] @ primitives meanMonthlyNDVI_object @ [''ee.Filter.eq'', ''get'']"
  by (simp add: referenceImage_object_def)

lemma computeAnomaly_calls:
  "primitives computeAnomaly_object =
     [''set'', ''ee.Image'', ''ee.Algorithms.If'', ''gt'', ''size'', ''bandNames'',
      ''ee.Algorithms.If'', ''gt'', ''size'', ''bandNames'']
     @ primitives referenceImage_object @ [''subtract'']
     @ primitives referenceImage_object @ [''get'', ''get'', ''get'']"
  by (simp add: computeAnomaly_object_def)

lemma monthlyNDVIAnomalies_anom_calls:
  "primitives monthlyNDVIAnomalies_anom_object =
     [''filterDate'', ''map''] @ primitives monthlyNDVI_object
     @ primitives computeAnomaly_object"
  by (simp add: monthlyNDVIAnomalies_anom_object_def monthlyNDVIAnomalies_object_def)

lemma mean_anomaly_calls:
  "primitives meanAnomaly_object =
     [''rename'', ''subtract'', ''clip'', ''mean'', ''select'', ''filterDate'', ''mean'',
      ''filter'', ''select'', ''filterDate'', ''ee.Filter.dayOfYear'']"
  "primitives anomaly_AOI_object =
     [''clip'', ''subtract'', ''select'', ''clip'', ''mean'', ''select'', ''filterDate'',
      ''mean'', ''filter'', ''select'', ''filterDate'', ''ee.Filter.dayOfYear'']"
  by (simp_all add: meanAnomaly_object_def anomaly_AOI_object_def study_meanNDVI_object_def
      ndvi_baseline_object_def withNDVI_baseline_object_def)

lemma referenceImage_no_If: "nesting ''ee.Algorithms.If'' referenceImage_object = 0"
  by (simp add: referenceImage_object_def meanMonthlyNDVI_object_def monthlyNDVI_object_def)

text \<open>
  Claim C6, as stated: the composition calls nothing but \<open>sum\<close>, \<open>mean\<close>,
  \<open>subtract\<close> and \<open>updateMask\<close> over filtered collections, without control flow.
  \<open>computeAnomaly\<close> of the NDVI script branches with \<open>ee.Algorithms.If\<close>, and the
  rainfall composition maps a function over the list of years and calls \<open>clip\<close>,
  \<open>mask\<close> and \<open>set\<close>.
\<close>

theorem purely_aggregation_counterexample:
  "''ee.Algorithms.If'' \<in> set (primitives computeAnomaly_object)
   \<and> \<not> purely_aggregation computeAnomaly_object
   \<and> ''map'' \<in> set (primitives rainfall_anomaly_object)
   \<and> \<not> purely_aggregation rainfall_anomaly_object"
  by (simp add: computeAnomaly_calls rainfall_anomaly_calls purely_aggregation_def
      aggregation_primitives_def filtering_primitives_def)

text \<open>
  Claim C6, amended.  From the prepared collections onwards (\<open>chirps\<close> in the rainfall
  script, \<open>withNDVI\<close> in the NDVI script) the baseline and anomaly composition consists
  of platform calls, and of these only.  The rainfall anomaly calls \<open>sum\<close>, \<open>mean\<close>,
  \<open>subtract\<close> and \<open>updateMask\<close>, the filters, \<open>clip\<close>, \<open>mask\<close>, \<open>set\<close> and one
  \<open>map\<close> over \<open>ee.List.sequence\<close> of the baseline years that feeds
  \<open>ee.ImageCollection.fromImages\<close>.  The monthly NDVI anomalies (the monthly images,
  their monthly baseline means and the mapped \<open>computeAnomaly\<close>) call \<open>mean\<close> and
  \<open>subtract\<close>, the filters and \<open>select\<close>, \<open>set\<close>, \<open>get\<close>, \<open>first\<close>,
  \<open>bandNames\<close>, \<open>size\<close>, \<open>gt\<close>, \<open>ee.Image\<close>, \<open>ee.Date.fromYMD\<close>, \<open>millis\<close>,
  \<open>map\<close> over lists and over the monthly collection with \<open>flatten\<close>,
  \<open>ee.List.sequence\<close>, \<open>ee.ImageCollection.fromImages\<close> and \<open>ee.Algorithms.If\<close>.
  The mean anomaly images call \<open>mean\<close>, \<open>subtract\<close>, the filters, \<open>select\<close>,
  \<open>clip\<close> and \<open>rename\<close>.  \<open>ee.Algorithms.If\<close> is called twice in
  \<open>computeAnomaly\<close>, one call inside the other, and nowhere else.
\<close>

theorem composition_primitives:
  "set (primitives rainfall_anomaly_object) =
     {''sum'', ''mean'', ''subtract'', ''updateMask'',
      ''filter'', ''ee.Filter.date'', ''ee.Filter.dayOfYear'', ''ee.Filter.calendarRange'',
      ''clip'', ''mask'', ''set'', ''map'', ''ee.List.sequence'',
      ''ee.ImageCollection.fromImages''}
   \<and> count_list (primitives rainfall_anomaly_object) ''map'' = 1
   \<and> set (primitives monthlyNDVIAnomalies_anom_object) =
     {''mean'', ''subtract'',
      ''filter'', ''filterDate'', ''select'', ''ee.Filter.calendarRange'', ''ee.Filter.eq'',
      ''set'', ''get'', ''first'', ''bandNames'', ''size'', ''gt'', ''ee.Image'',
      ''ee.Date.fromYMD'', ''millis'',
      ''map'', ''flatten'', ''ee.List.sequence'', ''ee.ImageCollection.fromImages'',
      ''ee.Algorithms.If''}
   \<and> set (primitives meanAnomaly_object) \<union> set (primitives anomaly_AOI_object) =
     {''mean'', ''subtract'', ''filter'', ''filterDate'', ''ee.Filter.dayOfYear'',
      ''select'', ''clip'', ''rename''}
   \<and> count_list (primitives computeAnomaly_object) ''ee.Algorithms.If'' = 2
   \<and> nesting ''ee.Algorithms.If'' computeAnomaly_object = 2
   \<and> count_list (primitives monthlyNDVI_object) ''ee.Algorithms.If'' = 0
   \<and> count_list (primitives meanMonthlyNDVI_object) ''ee.Algorithms.If'' = 0"
proof (intro conjI)
  show "set (primitives rainfall_anomaly_object) =
     {''sum'', ''mean'', ''subtract'', ''updateMask'',
      ''filter'', ''ee.Filter.date'', ''ee.Filter.dayOfYear'', ''ee.Filter.calendarRange'',
      ''clip'', ''mask'', ''set'', ''map'', ''ee.List.sequence'',
      ''ee.ImageCollection.fromImages''}"
    unfolding rainfall_anomaly_calls by auto
  show "count_list (primitives rainfall_anomaly_object) ''map'' = 1"
    unfolding rainfall_anomaly_calls by simp
  show "set (primitives monthlyNDVIAnomalies_anom_object) =
     {''mean'', ''subtract'',
      ''filter'', ''filterDate'', ''select'', ''ee.Filter.calendarRange'', ''ee.Filter.eq'',
      ''set'', ''get'', ''first'', ''bandNames'', ''size'', ''gt'', ''ee.Image'',
      ''ee.Date.fromYMD'', ''millis'',
      ''map'', ''flatten'', ''ee.List.sequence'', ''ee.ImageCollection.fromImages'',
      ''ee.Algorithms.If''}"
    unfolding monthlyNDVIAnomalies_anom_calls computeAnomaly_calls referenceImage_calls
      meanMonthlyNDVI_calls monthlyNDVI_calls
    by auto
  show "set (primitives meanAnomaly_object) \<union> set (primitives anomaly_AOI_object) =
     {''mean'', ''subtract'', ''filter'', ''filterDate'', ''ee.Filter.dayOfYear'',
      ''select'', ''clip'', ''rename''}"
    unfolding mean_anomaly_calls by auto
  show "count_list (primitives computeAnomaly_object) ''ee.Algorithms.If'' = 2"
    unfolding computeAnomaly_calls referenceImage_calls meanMonthlyNDVI_calls monthlyNDVI_calls
    by simp
  show "nesting ''ee.Algorithms.If'' computeAnomaly_object = 2"
    by (simp add: computeAnomaly_object_def referenceImage_no_If)
  show "count_list (primitives monthlyNDVI_object) ''ee.Algorithms.If'' = 0"
    unfolding monthlyNDVI_calls by simp
  show "count_list (primitives meanMonthlyNDVI_object) ''ee.Algorithms.If'' = 0"
    unfolding meanMonthlyNDVI_calls monthlyNDVI_calls by simp
qed

end
